theory Spec2Isabelle
  imports Complex_Main "HOL-Library.Sublist" "HOL-Library.Log_Nat"
begin

section \<open>JavaScript numbers\<close>

text \<open>
  Every number of the program is a JavaScript Number: an IEEE 754 double. The model keeps
  a finite non-zero double, and the positive zero, as the rational it stands for, and has
  the negative zero, the two infinities and \<^verbatim>\<open>NaN\<close> as values of their own. A numeric
  property may also be absent from an object: it then reads as \<^verbatim>\<open>undefined\<close>, which
  every arithmetic operation converts to \<^verbatim>\<open>NaN\<close>.

  Every operation computes the exact result and rounds it to the nearest double, ties to
  the even significand: 53 bits, exponents from \<open>-1074\<close> (the subnormal numbers) to
  \<open>971\<close>, overflow to infinity and underflow to a zero of the sign of the exact result.
\<close>

datatype jsnum = Fin rat | NegZero | PosInf | NegInf | NaN | Undefined

definition pow2 :: "int \<Rightarrow> rat" where
  "pow2 e = (if 0 \<le> e then 2 ^ nat e else 1 / 2 ^ nat (- e))"

definition roundHalfEven :: "rat \<Rightarrow> int" where
  "roundHalfEven x =
     (let f = \<lfloor>x\<rfloor>; d = x - of_int f
      in if d < 1 / 2 then f else if 1 / 2 < d then f + 1 else if even f then f else f + 1)"

text \<open>The exponent of the unit in the last place of the doubles around a positive \<open>r\<close>:
  \<open>r\<close> lies between \<open>2 ^ 52\<close> and \<open>2 ^ 53\<close> units, or below \<open>2 ^ 52\<close> units of the
  smallest exponent.\<close>

definition exponentOf :: "rat \<Rightarrow> int" where
  "exponentOf r =
     (let (n, d) = quotient_of r;
          t = bitlen n - bitlen d;
          l = (if pow2 t \<le> r then t else t - 1)
      in max (l - 52) (- 1074))"

definition roundPositive :: "rat \<Rightarrow> jsnum" where
  "roundPositive r =
     (let e = exponentOf r; m = roundHalfEven (r / pow2 e)
      in if 971 < e \<or> (e = 971 \<and> m = 2 ^ 53) then PosInf
         else Fin (of_int m * pow2 e))"

fun js_neg :: "jsnum \<Rightarrow> jsnum" where
  "js_neg (Fin a) = (if a = 0 then NegZero else Fin (- a))"
| "js_neg NegZero = Fin 0"
| "js_neg PosInf = NegInf"
| "js_neg NegInf = PosInf"
| "js_neg NaN = NaN"
| "js_neg Undefined = NaN"

text \<open>The Number for an exact value: of a decimal literal, of the digits \<^verbatim>\<open>parseFloat\<close>
  reads, of the exact result of an operation.\<close>

definition toDouble :: "rat \<Rightarrow> jsnum" where
  "toDouble r =
     (if r = 0 then Fin 0 else if 0 < r then roundPositive r else js_neg (roundPositive (- r)))"

text \<open>\<^verbatim>\<open>isNaN(a)\<close>, and the classification the operations use: zero, infinite, sign bit,
  absolute value of a finite number.\<close>

fun isNaN :: "jsnum \<Rightarrow> bool" where
  "isNaN NaN = True"
| "isNaN Undefined = True"
| "isNaN a = False"

fun isZero :: "jsnum \<Rightarrow> bool" where
  "isZero (Fin a) = (a = 0)"
| "isZero NegZero = True"
| "isZero a = False"

fun isInfinite :: "jsnum \<Rightarrow> bool" where
  "isInfinite PosInf = True"
| "isInfinite NegInf = True"
| "isInfinite a = False"

fun negative :: "jsnum \<Rightarrow> bool" where
  "negative (Fin a) = (a < 0)"
| "negative NegZero = True"
| "negative NegInf = True"
| "negative a = False"

fun magnitude :: "jsnum \<Rightarrow> rat" where
  "magnitude (Fin a) = \<bar>a\<bar>"
| "magnitude a = 0"

definition withSign :: "bool \<Rightarrow> jsnum \<Rightarrow> jsnum" where
  "withSign neg a = (if neg then js_neg a else a)"

text \<open>A value that counts as false in \<^verbatim>\<open>a || b\<close>.\<close>

definition falsy :: "jsnum \<Rightarrow> bool" where
  "falsy a = (isZero a \<or> isNaN a)"

text \<open>\<^verbatim>\<open>a + b\<close>, \<^verbatim>\<open>a - b\<close>, \<^verbatim>\<open>a * b\<close>, \<^verbatim>\<open>a / b\<close>\<close>

fun js_add :: "jsnum \<Rightarrow> jsnum \<Rightarrow> jsnum" where
  "js_add NaN b = NaN"
| "js_add Undefined b = NaN"
| "js_add a NaN = NaN"
| "js_add a Undefined = NaN"
| "js_add PosInf NegInf = NaN"
| "js_add NegInf PosInf = NaN"
| "js_add PosInf b = PosInf"
| "js_add NegInf b = NegInf"
| "js_add a PosInf = PosInf"
| "js_add a NegInf = NegInf"
| "js_add NegZero b = b"
| "js_add a NegZero = a"
| "js_add (Fin a) (Fin b) = toDouble (a + b)"

definition js_sub :: "jsnum \<Rightarrow> jsnum \<Rightarrow> jsnum" where
  "js_sub a b = js_add a (js_neg b)"

definition js_mul :: "jsnum \<Rightarrow> jsnum \<Rightarrow> jsnum" where
  "js_mul a b =
     (if isNaN a \<or> isNaN b then NaN
      else if (isInfinite a \<and> isZero b) \<or> (isZero a \<and> isInfinite b) then NaN
      else withSign (negative a \<noteq> negative b)
             (if isInfinite a \<or> isInfinite b then PosInf
              else toDouble (magnitude a * magnitude b)))"

definition js_div :: "jsnum \<Rightarrow> jsnum \<Rightarrow> jsnum" where
  "js_div a b =
     (if isNaN a \<or> isNaN b then NaN
      else if (isInfinite a \<and> isInfinite b) \<or> (isZero a \<and> isZero b) then NaN
      else withSign (negative a \<noteq> negative b)
             (if isInfinite a \<or> isZero b then PosInf
              else if isInfinite b then Fin 0
              else toDouble (magnitude a / magnitude b)))"

text \<open>\<^verbatim>\<open>a > b\<close> and \<^verbatim>\<open>a < b\<close>: false as soon as one side is \<^verbatim>\<open>NaN\<close> or \<^verbatim>\<open>undefined\<close>; the two
  zeros compare equal.\<close>

fun js_gt :: "jsnum \<Rightarrow> jsnum \<Rightarrow> bool" where
  "js_gt (Fin a) (Fin b) = (b < a)"
| "js_gt (Fin a) NegZero = (0 < a)"
| "js_gt NegZero (Fin b) = (b < 0)"
| "js_gt PosInf (Fin b) = True"
| "js_gt PosInf NegZero = True"
| "js_gt PosInf NegInf = True"
| "js_gt (Fin a) NegInf = True"
| "js_gt NegZero NegInf = True"
| "js_gt a b = False"

definition js_lt :: "jsnum \<Rightarrow> jsnum \<Rightarrow> bool" where
  "js_lt a b = js_gt b a"

text \<open>\<^verbatim>\<open>a === b\<close> on numbers: \<^verbatim>\<open>NaN\<close> equals nothing, itself included, and the two zeros
  are equal.\<close>

fun js_eq :: "jsnum \<Rightarrow> jsnum \<Rightarrow> bool" where
  "js_eq (Fin a) (Fin b) = (a = b)"
| "js_eq (Fin a) NegZero = (a = 0)"
| "js_eq NegZero (Fin b) = (b = 0)"
| "js_eq NegZero NegZero = True"
| "js_eq PosInf PosInf = True"
| "js_eq NegInf NegInf = True"
| "js_eq Undefined Undefined = True"
| "js_eq a b = False"

section \<open>JavaScript strings\<close>

text \<open>
  A string is a list of code units. The model has the code units below 256 (Latin-1),
  which is where every character of the program's patterns and keywords lies; the
  multiplication sign of the dimension pattern is the code unit \<open>0xD7\<close>.
\<close>

definition isDigit :: "char \<Rightarrow> bool" where
  "isDigit c = (c \<in> set ''0123456789'')"

definition isWordChar :: "char \<Rightarrow> bool" where
  "isWordChar c =
     (c \<in> set ''abcdefghijklmnopqrstuvwxyzABCDEFGHIJKLMNOPQRSTUVWXYZ0123456789_'')"

text \<open>White space and line terminators: tab, LF, VT, FF, CR, space, no-break space.\<close>

definition isWhiteSpace :: "char \<Rightarrow> bool" where
  "isWhiteSpace c =
     (c \<in> set [CHR 0x09, CHR 0x0A, CHR 0x0B, CHR 0x0C, CHR 0x0D, CHR 0x20, CHR 0xA0])"

definition toUpperChar :: "char \<Rightarrow> char" where
  "toUpperChar c =
     (let n = (of_char c :: int)
      in if (97 \<le> n \<and> n \<le> 122) \<or> (224 \<le> n \<and> n \<le> 254 \<and> n \<noteq> 247)
         then char_of (n - 32) else c)"

definition toLowerChar :: "char \<Rightarrow> char" where
  "toLowerChar c =
     (let n = (of_char c :: int)
      in if (65 \<le> n \<and> n \<le> 90) \<or> (192 \<le> n \<and> n \<le> 222 \<and> n \<noteq> 215)
         then char_of (n + 32) else c)"

definition toLowerCase :: "string \<Rightarrow> string" where
  "toLowerCase s = map toLowerChar s"

text \<open>\<^verbatim>\<open>s.includes(w)\<close>\<close>

fun js_includes :: "string \<Rightarrow> string \<Rightarrow> bool" where
  "js_includes [] w = (w = [])"
| "js_includes (c # s) w = (prefix w (c # s) \<or> js_includes s w)"

definition trim :: "string \<Rightarrow> string" where
  "trim s = rev (dropWhile isWhiteSpace (rev (dropWhile isWhiteSpace s)))"

text \<open>\<^verbatim>\<open>s.indexOf(c, from)\<close> and \<^verbatim>\<open>s.lastIndexOf(c, from)\<close> for a one-character \<open>c\<close>; \<open>-1\<close>
  when there is none.\<close>

definition indexOf :: "string \<Rightarrow> char \<Rightarrow> nat \<Rightarrow> int" where
  "indexOf s c from =
     (case filter (\<lambda>i. s ! i = c) [from..<length s] of [] \<Rightarrow> - 1 | i # _ \<Rightarrow> int i)"

definition lastIndexOf :: "string \<Rightarrow> char \<Rightarrow> nat \<Rightarrow> int" where
  "lastIndexOf s c from =
     (case filter (\<lambda>i. s ! i = c) (rev [0..<min (Suc from) (length s)]) of
        [] \<Rightarrow> - 1 | i # _ \<Rightarrow> int i)"

text \<open>\<^verbatim>\<open>s.substring(a, b)\<close>; \<open>None\<close> is an \<^verbatim>\<open>undefined\<close> end, which reads as the length.\<close>

definition substring :: "string \<Rightarrow> nat \<Rightarrow> nat option \<Rightarrow> string" where
  "substring s a b =
     (let a' = min a (length s);
          b' = (case b of None \<Rightarrow> length s | Some e \<Rightarrow> min e (length s));
          lo = min a' b'; hi = max a' b'
      in take (hi - lo) (drop lo s))"

text \<open>\<^verbatim>\<open>xs.join(sep)\<close>\<close>

fun join :: "string \<Rightarrow> string list \<Rightarrow> string" where
  "join sep [] = []"
| "join sep [x] = x"
| "join sep (x # y # ys) = x @ sep @ join sep (y # ys)"

subsection \<open>Reading numbers\<close>

definition natOfDigits :: "string \<Rightarrow> nat" where
  "natOfDigits ds = foldl (\<lambda>a c. 10 * a + (of_char c - 48)) 0 ds"

text \<open>
  \<^verbatim>\<open>parseFloat\<close> and \<^verbatim>\<open>parseInt(_, 10)\<close> on what the program gives them: the text of a
  capture group, made of digits with at most one decimal point. The longest numeric
  prefix is read and its decimal value rounded to a double; no digit at all gives \<^verbatim>\<open>NaN\<close>.
\<close>

definition parseFloat :: "string \<Rightarrow> jsnum" where
  "parseFloat s =
     (let ip = takeWhile isDigit s;
          r = dropWhile isDigit s;
          fp = (case r of [] \<Rightarrow> [] | c # t \<Rightarrow> if c = CHR ''.'' then takeWhile isDigit t else [])
      in if ip = [] \<and> fp = [] then NaN
         else toDouble (of_nat (natOfDigits ip) + of_nat (natOfDigits fp) / 10 ^ length fp))"

definition parseInt :: "string \<Rightarrow> jsnum" where
  "parseInt s =
     (let ds = takeWhile isDigit s
      in if ds = [] then NaN else toDouble (of_nat (natOfDigits ds)))"

section \<open>Regular expressions\<close>

text \<open>
  The patterns of the program are built from literals, character classes under a greedy
  quantifier, optional parts, sequences, alternatives and capture groups. \<open>matchRe\<close>
  is the backtracking matcher: it returns every way the pattern matches a prefix of the
  string, as the captures and the rest of the string, in the order in which backtracking
  tries them. The first one is the match. The flag is \<^verbatim>\<open>/i\<close>.
\<close>

datatype cclass = Digit | WordChar | WhiteSpace | OneOf string | Union cclass cclass

fun inClass :: "bool \<Rightarrow> cclass \<Rightarrow> char \<Rightarrow> bool" where
  "inClass ic Digit c = isDigit c"
| "inClass ic WordChar c = isWordChar c"
| "inClass ic WhiteSpace c = isWhiteSpace c"
| "inClass ic (OneOf cs) c =
     (if ic then toUpperChar c \<in> set (map toUpperChar cs) else c \<in> set cs)"
| "inClass ic (Union a b) c = (inClass ic a c \<or> inClass ic b c)"

datatype re =
    Lit string
  | Rep cclass nat "nat option"
  | Opt re
  | Seq re re
  | Alt re re
  | Grp nat re

type_synonym captures = "(nat \<times> string) list"

definition canon :: "bool \<Rightarrow> char \<Rightarrow> char" where
  "canon ic c = (if ic then toUpperChar c else c)"

definition withCaptures :: "captures \<Rightarrow> (captures \<times> string) list \<Rightarrow> (captures \<times> string) list" where
  "withCaptures g rs = map (\<lambda>(g', s'). (g @ g', s')) rs"

text \<open>The rest of \<open>s\<close> after the literal \<open>w\<close>, if \<open>s\<close> starts with it.\<close>

fun matchLit :: "bool \<Rightarrow> string \<Rightarrow> string \<Rightarrow> string option" where
  "matchLit ic [] s = Some s"
| "matchLit ic (c # w) [] = None"
| "matchLit ic (c # w) (d # s) =
     (if c = d then matchLit ic w s
      else if canon ic c = canon ic d then matchLit ic w s
      else None)"

fun matchRe :: "bool \<Rightarrow> re \<Rightarrow> string \<Rightarrow> (captures \<times> string) list" where
  "matchRe ic (Lit w) s = (case matchLit ic w s of Some rest \<Rightarrow> [([], rest)] | None \<Rightarrow> [])"
| "matchRe ic (Rep cls lo hi) s =
     (let n = length (takeWhile (inClass ic cls) s);
          most = (case hi of None \<Rightarrow> n | Some h \<Rightarrow> min n h)
      in map (\<lambda>k. ([], drop k s)) (rev [lo..<Suc most]))"
| "matchRe ic (Opt r) s = matchRe ic r s @ [([], s)]"
| "matchRe ic (Seq r1 r2) s =
     concat (map (\<lambda>m1. withCaptures (fst m1) (matchRe ic r2 (snd m1))) (matchRe ic r1 s))"
| "matchRe ic (Alt r1 r2) s = matchRe ic r1 s @ matchRe ic r2 s"
| "matchRe ic (Grp k r) s =
     map (\<lambda>m1. ((k, take (length s - length (snd m1)) s) # fst m1, snd m1)) (matchRe ic r s)"

record rmatch =
  index :: nat
  matched :: string
  groups :: captures

text \<open>The match at the start of \<open>s\<close>, if any; \<open>i\<close> is the index of \<open>s\<close> in the whole string.\<close>

definition matchAt :: "bool \<Rightarrow> re \<Rightarrow> string \<Rightarrow> nat \<Rightarrow> rmatch option" where
  "matchAt ic r s i =
     (case matchRe ic r s of
        [] \<Rightarrow> None
      | m1 # _ \<Rightarrow>
          Some \<lparr>index = i, matched = take (length s - length (snd m1)) s, groups = fst m1\<rparr>)"

text \<open>The leftmost match: position after position, the end of the string included.\<close>

fun searchFrom :: "bool \<Rightarrow> re \<Rightarrow> string \<Rightarrow> nat \<Rightarrow> rmatch option" where
  "searchFrom ic r [] i = matchAt ic r [] i"
| "searchFrom ic r (c # s) i =
     (case matchAt ic r (c # s) i of
        Some m \<Rightarrow> Some m
      | None \<Rightarrow> searchFrom ic r s (Suc i))"

text \<open>\<^verbatim>\<open>s.match(re)\<close> for a pattern without \<^verbatim>\<open>/g\<close>, and \<^verbatim>\<open>re.test(s)\<close>.\<close>

definition js_match :: "bool \<Rightarrow> re \<Rightarrow> string \<Rightarrow> rmatch option" where
  "js_match ic r s = searchFrom ic r s 0"

definition test :: "bool \<Rightarrow> re \<Rightarrow> string \<Rightarrow> bool" where
  "test ic r s = (js_match ic r s \<noteq> None)"

text \<open>\<^verbatim>\<open>m[k]\<close>. The program reads only groups that lie on every path of their pattern, so
  a match always has them.\<close>

definition grp :: "rmatch \<Rightarrow> nat \<Rightarrow> string" where
  "grp m k = (case map_of (groups m) k of Some w \<Rightarrow> w | None \<Rightarrow> [])"

text \<open>\<^verbatim>\<open>s.replace(re, '')\<close> for a pattern without \<^verbatim>\<open>/g\<close>: the first match is cut out.\<close>

definition replaceFirst :: "bool \<Rightarrow> re \<Rightarrow> string \<Rightarrow> string" where
  "replaceFirst ic r s =
     (case js_match ic r s of
        None \<Rightarrow> s
      | Some m \<Rightarrow> take (index m) s @ drop (index m + length (matched m)) s)"

text \<open>
  \<^verbatim>\<open>s.matchAll(re)\<close> with \<^verbatim>\<open>/g\<close>: the matches from left to right, each search starting
  where the previous match ended, or one further when that match was empty.
\<close>

function matchAllFrom :: "bool \<Rightarrow> re \<Rightarrow> string \<Rightarrow> nat \<Rightarrow> rmatch list" where
  "matchAllFrom ic r s off =
     (case searchFrom ic r s off of
        None \<Rightarrow> []
      | Some m \<Rightarrow>
          (let adv = (index m - off) + max 1 (length (matched m))
           in if 1 \<le> adv \<and> adv \<le> length s
              then m # matchAllFrom ic r (drop adv s) (off + adv)
              else [m]))"
  by pat_completeness auto
termination
  by (relation "measure (\<lambda>(ic, r, s, off). length s)") auto

definition matchAll :: "bool \<Rightarrow> re \<Rightarrow> string \<Rightarrow> rmatch list" where
  "matchAll ic r s = matchAllFrom ic r s 0"

definition seqs :: "re list \<Rightarrow> re" where
  "seqs rs = foldr Seq rs (Lit [])"

section \<open>Attribute mapping and option extraction (comparison manager)\<close>

text \<open>\<^verbatim>\<open>mapWindowType\<close>, \<^verbatim>\<open>mapMaterial\<close>, \<^verbatim>\<open>mapGlassType\<close>: a chain of substring tests on
  the lower-cased input, the first hit decides.\<close>

definition mapWindowType :: "string \<Rightarrow> string" where
  "mapWindowType productName =
     (let name = toLowerCase productName
      in if js_includes name ''double-hung'' \<or> js_includes name ''double hung'' then ''double-hung''
         else if js_includes name ''casement'' then ''casement''
         else if js_includes name ''awning'' then ''awning''
         else if js_includes name ''slider'' \<or> js_includes name ''sliding'' then ''slider''
         else if js_includes name ''picture'' \<or> js_includes name ''fixed'' then ''picture''
         else if js_includes name ''bay'' then ''bay''
         else if js_includes name ''bow'' then ''bow''
         else if js_includes name ''garden'' then ''garden''
         else ''double-hung'')"

definition mapMaterial :: "string \<Rightarrow> string" where
  "mapMaterial materialType =
     (let material = toLowerCase materialType
      in if js_includes material ''vinyl'' then ''vinyl''
         else if js_includes material ''fiberglass'' then ''fiberglass''
         else if js_includes material ''wood'' then ''wood''
         else if js_includes material ''aluminum'' then ''aluminum''
         else if js_includes material ''composite'' then ''composite''
         else ''vinyl'')"

definition mapGlassType :: "string \<Rightarrow> string" where
  "mapGlassType description =
     (let desc = toLowerCase description
      in if js_includes desc ''triple'' \<or> js_includes desc ''3-pane'' \<or> js_includes desc ''3 pane''
         then ''triple-pane''
         else if js_includes desc ''single'' \<or> js_includes desc ''1-pane'' \<or> js_includes desc ''1 pane''
         then ''single-pane''
         else ''double-pane'')"

text \<open>The keywords each mapper looks for, and the values it can return.\<close>

definition windowTypeKeywords :: "string list" where
  "windowTypeKeywords =
     [''double-hung'', ''double hung'', ''casement'', ''awning'', ''slider'', ''sliding'',
      ''picture'', ''fixed'', ''bay'', ''bow'', ''garden'']"

definition materialKeywords :: "string list" where
  "materialKeywords = [''vinyl'', ''fiberglass'', ''wood'', ''aluminum'', ''composite'']"

definition glassTypeKeywords :: "string list" where
  "glassTypeKeywords = [''triple'', ''3-pane'', ''3 pane'', ''single'', ''1-pane'', ''1 pane'']"

definition windowTypes :: "string set" where
  "windowTypes =
     {''double-hung'', ''casement'', ''awning'', ''slider'', ''picture'', ''bay'', ''bow'', ''garden''}"

definition materials :: "string set" where
  "materials = {''vinyl'', ''fiberglass'', ''wood'', ''aluminum'', ''composite''}"

definition glassTypes :: "string set" where
  "glassTypes = {''triple-pane'', ''single-pane'', ''double-pane''}"

text \<open>An input is recognised when one of the keywords occurs in it, whatever the case.\<close>

definition recognised :: "string list \<Rightarrow> string \<Rightarrow> bool" where
  "recognised keywords s = list_ex (js_includes (toLowerCase s)) keywords"

text \<open>
  \<^verbatim>\<open>extractOptions\<close>: seven independent pattern tests, each pushing its label onto the array
  \<^verbatim>\<open>options\<close>; the function returns \<^verbatim>\<open>options.join(', ')\<close>. \<open>extractOptionLabels\<close> is the
  array as it stands before the join.
\<close>

definition lowERe :: re where
  "lowERe = Alt (Lit ''low-e'') (Alt (Lit ''low e'') (Lit ''lowe''))"

definition argonRe :: re where
  "argonRe = Alt (Lit ''argon'') (Lit ''gas filled'')"

definition energyStarRe :: re where
  "energyStarRe = Alt (Lit ''energy star'') (Lit ''energystar'')"

definition temperedRe :: re where
  "temperedRe = Alt (Lit ''tempered'') (Lit ''safety glass'')"

definition gridsRe :: re where
  "gridsRe = Alt (Lit ''grids'') (Alt (Lit ''grilles'') (Lit ''muntins''))"

definition screensRe :: re where
  "screensRe = Lit ''screens''"

definition tiltRe :: re where
  "tiltRe = Alt (Lit ''tilt'') (Lit ''washable'')"

definition pushIf :: "bool \<Rightarrow> string \<Rightarrow> string list" where
  "pushIf b label = (if b then [label] else [])"

definition extractOptionLabels :: "string \<Rightarrow> string list" where
  "extractOptionLabels description =
     pushIf (test True lowERe description) ''Low-E Glass''
     @ pushIf (test True argonRe description) ''Argon Gas''
     @ pushIf (test True energyStarRe description) ''ENERGY STAR''
     @ pushIf (test True temperedRe description) ''Tempered Glass''
     @ pushIf (test True gridsRe description) ''Grids''
     @ pushIf (test True screensRe description) ''Screens''
     @ pushIf (test True tiltRe description) ''Tilt Feature''"

definition extractOptions :: "string \<Rightarrow> string" where
  "extractOptions description = join '', '' (extractOptionLabels description)"

definition optionCheckOrder :: "string list" where
  "optionCheckOrder =
     [''Low-E Glass'', ''Argon Gas'', ''ENERGY STAR'', ''Tempered Glass'', ''Grids'',
      ''Screens'', ''Tilt Feature'']"

text \<open>\<^verbatim>\<open>formatGlassType\<close> and \<^verbatim>\<open>formatOptions\<close>; an empty string is falsy and adds nothing.
  The first letter is put in upper case as a single code unit, which is what
  \<^verbatim>\<open>toUpperCase\<close> does on the letters of the material names.\<close>

definition formatGlassType :: "string \<Rightarrow> string" where
  "formatGlassType glassType =
     (if glassType = ''single-pane'' then ''Single Pane Glass''
      else if glassType = ''double-pane'' then ''Double Pane Glass''
      else if glassType = ''triple-pane'' then ''Triple Pane Glass''
      else ''Double Pane Glass'')"

record calc_options =
  windowType :: string
  material :: string
  glassType :: string

definition formatOptions :: "calc_options \<Rightarrow> string" where
  "formatOptions options =
     join '', ''
       ((if material options \<noteq> []
         then [toUpperChar (hd (material options)) # tl (material options) @ '' Frame'']
         else [])
        @ (if glassType options \<noteq> [] then [formatGlassType (glassType options)] else []))"

section \<open>Parsing the extracted text (quote manager)\<close>

text \<open>
  Two things \<^verbatim>\<open>parseQuoteText\<close> uses belong to the JavaScript engine and not to the
  program: \<^verbatim>\<open>new Date(string)\<close>, whose reading of a date such as \<^verbatim>\<open>03/15/2024\<close> the
  language leaves to the engine, and the conversion of a number to a string inside a
  template literal. Both are parameters. \<open>newDate\<close> returns the calendar day of the
  \<^verbatim>\<open>Date\<close> object, or \<open>None\<close> for an invalid date (\<^verbatim>\<open>isNaN(d.getTime())\<close>).
\<close>

record date =
  year :: int
  month :: nat
  day :: nat

record engine =
  newDate :: "string \<Rightarrow> date option"
  numberToString :: "jsnum \<Rightarrow> string"

record parsed_item =
  widthInches :: jsnum
  heightInches :: jsnum
  description :: string
  quantity :: jsnum
  unitPrice :: jsnum
  totalPrice :: jsnum
  confidenceScore :: jsnum

record parsed_quote =
  quoteNumber :: string
  quoteDate :: "date option"
  totalAmount :: jsnum
  items :: "parsed_item list"

definition ws :: re where
  "ws = Rep WhiteSpace 0 None"

definition digits :: re where
  "digits = Rep Digit 1 None"

text \<open>\<^verbatim>\<open>(\w+[-]?\d+)\<close>\<close>

definition numberToken :: re where
  "numberToken = Grp 1 (seqs [Rep WordChar 1 None, Opt (Lit ''-''), digits])"

text \<open>\<^verbatim>\<open>/Quote\s*#?\s*(\w+[-]?\d+)/i\<close>, \<^verbatim>\<open>/Quote\s*Number\s*:?\s*(\w+[-]?\d+)/i\<close>,
  \<^verbatim>\<open>/Estimate\s*#?\s*(\w+[-]?\d+)/i\<close>\<close>

definition quoteHashRe :: re where
  "quoteHashRe = seqs [Lit ''Quote'', ws, Opt (Lit ''#''), ws, numberToken]"

definition quoteNumberRe :: re where
  "quoteNumberRe = seqs [Lit ''Quote'', ws, Lit ''Number'', ws, Opt (Lit '':''), ws, numberToken]"

definition estimateRe :: re where
  "estimateRe = seqs [Lit ''Estimate'', ws, Opt (Lit ''#''), ws, numberToken]"

text \<open>\<^verbatim>\<open>(\d{1,2}[\/\-\.]\d{1,2}[\/\-\.]\d{2,4})\<close>, alone and after \<^verbatim>\<open>Date\s*:?\s*\<close> under \<^verbatim>\<open>/i\<close>\<close>

definition dateToken :: re where
  "dateToken =
     Grp 1 (seqs [Rep Digit 1 (Some 2), Rep (OneOf ''/-.'') 1 (Some 1),
                  Rep Digit 1 (Some 2), Rep (OneOf ''/-.'') 1 (Some 1),
                  Rep Digit 2 (Some 4)])"

definition labelledDateRe :: re where
  "labelledDateRe = seqs [Lit ''Date'', ws, Opt (Lit '':''), ws, dateToken]"

text \<open>\<^verbatim>\<open>([\d,]+\.\d{2})\<close> and the three total patterns, all \<^verbatim>\<open>/i\<close>\<close>

definition amountToken :: re where
  "amountToken =
     Grp 1 (seqs [Rep (Union Digit (OneOf '','')) 1 None, Lit ''.'', Rep Digit 2 (Some 2)])"

definition totalRe :: re where
  "totalRe = seqs [Lit ''Total'', ws, Opt (Lit '':''), ws, Opt (Lit ''$''), ws, amountToken]"

definition grandTotalRe :: re where
  "grandTotalRe =
     seqs [Lit ''Grand'', ws, Lit ''Total'', ws, Opt (Lit '':''), ws, Opt (Lit ''$''), ws,
           amountToken]"

definition amountDueRe :: re where
  "amountDueRe =
     seqs [Lit ''Amount'', ws, Lit ''Due'', ws, Opt (Lit '':''), ws, Opt (Lit ''$''), ws,
           amountToken]"

text \<open>\<^verbatim>\<open>\d+(?:\.\d+)?\<close>, and the dimension pattern
  \<^verbatim>\<open>(\d+(?:\.\d+)?)\s*(?:x|\<times>)\s*(\d+(?:\.\d+)?)\<close>, used with \<^verbatim>\<open>/gi\<close> to find the items and,
  without groups and flags, to cut the dimensions out of the description.\<close>

definition decimal :: re where
  "decimal = Seq digits (Opt (Seq (Lit ''.'') digits))"

definition timesSign :: re where
  "timesSign = Alt (Lit ''x'') (Lit [CHR 0xD7])"

definition dimensionRe :: re where
  "dimensionRe = seqs [Grp 1 decimal, ws, timesSign, ws, Grp 2 decimal]"

definition dimensionCutRe :: re where
  "dimensionCutRe = seqs [decimal, ws, timesSign, ws, decimal]"

text \<open>\<^verbatim>\<open>/\$\s*([\d,]+\.\d{2})/\<close>, \<^verbatim>\<open>/qty\s*:?\s*(\d+)/i\<close>, \<^verbatim>\<open>/quantity\s*:?\s*(\d+)/i\<close>. The patterns
  that cut these tokens out of the description are the same without the group, which
  changes nothing in what they match.\<close>

definition priceRe :: re where
  "priceRe = seqs [Lit ''$'', ws, amountToken]"

definition qtyRe :: re where
  "qtyRe = seqs [Lit ''qty'', ws, Opt (Lit '':''), ws, Grp 1 digits]"

definition quantityRe :: re where
  "quantityRe = seqs [Lit ''quantity'', ws, Opt (Lit '':''), ws, Grp 1 digits]"

text \<open>\<^verbatim>\<open>a || b || c\<close> on match results\<close>

definition orElse :: "'a option \<Rightarrow> 'a option \<Rightarrow> 'a option" where
  "orElse a b = (case a of Some x \<Rightarrow> Some x | None \<Rightarrow> b)"

definition removeCommas :: "string \<Rightarrow> string" where
  "removeCommas s = filter (\<lambda>c. c \<noteq> CHR '','') s"

text \<open>The body of the loop over the dimension matches: the item pushed for the match
  \<open>m\<close>, or nothing when a dimension is not positive.\<close>

definition parseItem :: "engine \<Rightarrow> string \<Rightarrow> rmatch \<Rightarrow> parsed_item option" where
  "parseItem eng txt m =
     (let width = parseFloat (grp m 1);
          height = parseFloat (grp m 2);
          lineStart = nat (max 0 (lastIndexOf txt (CHR 0x0A) (index m)));
          lineEnd = indexOf txt (CHR 0x0A) (index m);
          line = substring txt lineStart (if lineEnd > - 1 then Some (nat lineEnd) else None);
          price = (case js_match False priceRe line of
                     Some pm \<Rightarrow> parseFloat (removeCommas (grp pm 1))
                   | None \<Rightarrow> Fin 0);
          qty = (case orElse (js_match True qtyRe line) (js_match True quantityRe line) of
                   Some qm \<Rightarrow> parseInt (grp qm 1)
                 | None \<Rightarrow> Fin 1);
          d1 = trim (replaceFirst False priceRe line);
          d2 = trim (replaceFirst True qtyRe d1);
          d3 = trim (replaceFirst True quantityRe d2);
          d4 = trim (replaceFirst False dimensionCutRe d3);
          desc = (if d4 = []
                  then numberToString eng width @ [CHR 0x22, CHR 0x20, CHR 0xD7, CHR 0x20]
                       @ numberToString eng height @ [CHR 0x22] @ '' Window''
                  else d4)
      in if js_gt width (Fin 0) \<and> js_gt height (Fin 0)
         then Some \<lparr>widthInches = width, heightInches = height, description = desc,
                     quantity = qty, unitPrice = js_div price qty, totalPrice = price,
                     confidenceScore = toDouble (8 / 10)\<rparr>
         else None)"

text \<open>
  \<^verbatim>\<open>parseQuoteText(text, competitorName)\<close>. The competitor name is not read. On a string
  no step of the body throws, so the \<^verbatim>\<open>catch\<close> branch, which returns the same defaults
  the body starts from, is never entered.
\<close>

definition parseQuoteText :: "engine \<Rightarrow> string \<Rightarrow> parsed_quote" where
  "parseQuoteText eng txt =
     (let quoteNumberMatch =
            orElse (js_match True quoteHashRe txt)
              (orElse (js_match True quoteNumberRe txt) (js_match True estimateRe txt));
          dateMatch = orElse (js_match True labelledDateRe txt) (js_match False dateToken txt);
          totalMatch =
            orElse (js_match True totalRe txt)
              (orElse (js_match True grandTotalRe txt) (js_match True amountDueRe txt))
      in \<lparr>quoteNumber = (case quoteNumberMatch of Some m \<Rightarrow> grp m 1 | None \<Rightarrow> []),
          quoteDate = (case dateMatch of Some m \<Rightarrow> newDate eng (grp m 1) | None \<Rightarrow> None),
          totalAmount = (case totalMatch of
                           Some m \<Rightarrow> parseFloat (removeCommas (grp m 1))
                         | None \<Rightarrow> Fin 0),
          items = List.map_filter (parseItem eng txt) (matchAll True dimensionRe txt)\<rparr>)"

section \<open>Documents and the document store\<close>

text \<open>
  The records have the properties of the program's documents that its computations read
  or write. Timestamps (\<^verbatim>\<open>createdAt\<close>, \<^verbatim>\<open>updatedAt\<close>), the upload metadata of a quote and
  the random identifier of a comparison item are left out: they come from the clock,
  the upload and \<^verbatim>\<open>Math.random\<close>, and nothing here reads them. Where two kinds of object
  have a property of the same name, the field of the later record carries a prefix.
  A stored quote item is a parsed item with the identifiers \<^verbatim>\<open>createQuoteItems\<close> adds.
\<close>

record quote_item = parsed_item +
  quoteId :: string
  itemId :: string

record quote =
  q_quoteId :: string
  q_projectId :: string
  q_competitorName :: string
  q_extractionStatus :: string
  q_quoteNumber :: string
  q_quoteDate :: "date option"
  q_totalAmount :: jsnum
  q_itemsCount :: nat

record comparison =
  c_projectId :: string
  c_quoteId :: string
  c_competitorName :: string
  totalCompetitorPrice :: jsnum
  totalWarnkePrice :: jsnum
  savingsAmount :: jsnum
  savingsPercentage :: jsnum
  status :: string
  comparisonId :: string

record comparison_item =
  ci_comparisonId :: string
  quoteItemId :: string
  competitorProductDescription :: string
  competitorOptions :: string
  competitorPrice :: jsnum
  warnkeProductId :: string
  warnkeProductName :: string
  warnkeProductDescription :: string
  warnkeOptions :: string
  warnkePrice :: jsnum
  width :: jsnum
  height :: jsnum
  ci_quantity :: jsnum
  ci_savingsAmount :: jsnum
  ci_savingsPercentage :: jsnum
  matchConfidence :: jsnum

datatype error = Error string | TypeError | StoreError

text \<open>
  Modelled from the spec: the \<^verbatim>\<open>wix-data\<close> wrapper (\<^verbatim>\<open>getDocument\<close>, \<^verbatim>\<open>createDocument\<close>,
  \<^verbatim>\<open>updateDocument\<close>, \<^verbatim>\<open>queryDocuments\<close>) is imported by the program and is not among its
  sources. The spec describes it as a document store with simple create, read and
  update-by-id operations. A read returns the first document with the identifier, or
  nothing (\<^verbatim>\<open>null\<close>); a query returns the documents with the property, in the order of
  the collection; a create appends the document and an update replaces the documents
  with its identifier, and both return the document they were given. Every operation
  can also fail: the store carries the list of the operations it rejects.
\<close>

datatype store_op =
    GetQuote string
  | GetQuoteItem string
  | QueryQuoteItems string
  | UpdateQuoteItem quote_item
  | UpdateQuote quote
  | CreateComparison comparison
  | CreateComparisonItem comparison_item
  | UpdateComparison comparison

record store =
  quotesColl :: "quote list"
  quoteItemsColl :: "quote_item list"
  comparisonsColl :: "comparison list"
  comparisonItemsColl :: "comparison_item list"
  unavailable :: "store_op list"

definition getDocumentQuotes :: "store \<Rightarrow> string \<Rightarrow> error + quote option" where
  "getDocumentQuotes s qid =
     (if GetQuote qid \<in> set (unavailable s) then Inl StoreError
      else Inr (find (\<lambda>q. q_quoteId q = qid) (quotesColl s)))"

definition getDocumentQuoteItems :: "store \<Rightarrow> string \<Rightarrow> error + quote_item option" where
  "getDocumentQuoteItems s iid =
     (if GetQuoteItem iid \<in> set (unavailable s) then Inl StoreError
      else Inr (find (\<lambda>i. itemId i = iid) (quoteItemsColl s)))"

definition queryQuoteItems :: "store \<Rightarrow> string \<Rightarrow> error + quote_item list" where
  "queryQuoteItems s qid =
     (if QueryQuoteItems qid \<in> set (unavailable s) then Inl StoreError
      else Inr (filter (\<lambda>i. quoteId i = qid) (quoteItemsColl s)))"

definition updateDocumentQuoteItems :: "store \<Rightarrow> quote_item \<Rightarrow> (error + quote_item) \<times> store" where
  "updateDocumentQuoteItems s doc =
     (if UpdateQuoteItem doc \<in> set (unavailable s) then (Inl StoreError, s)
      else (Inr doc,
            s\<lparr>quoteItemsColl :=
                 map (\<lambda>d. if itemId d = itemId doc then doc else d) (quoteItemsColl s)\<rparr>))"

definition updateDocumentQuotes :: "store \<Rightarrow> quote \<Rightarrow> (error + quote) \<times> store" where
  "updateDocumentQuotes s doc =
     (if UpdateQuote doc \<in> set (unavailable s) then (Inl StoreError, s)
      else (Inr doc,
            s\<lparr>quotesColl :=
                 map (\<lambda>d. if q_quoteId d = q_quoteId doc then doc else d) (quotesColl s)\<rparr>))"

definition createDocumentComparisons :: "store \<Rightarrow> comparison \<Rightarrow> (error + comparison) \<times> store" where
  "createDocumentComparisons s doc =
     (if CreateComparison doc \<in> set (unavailable s) then (Inl StoreError, s)
      else (Inr doc, s\<lparr>comparisonsColl := comparisonsColl s @ [doc]\<rparr>))"

definition createDocumentComparisonItems ::
  "store \<Rightarrow> comparison_item \<Rightarrow> (error + comparison_item) \<times> store" where
  "createDocumentComparisonItems s doc =
     (if CreateComparisonItem doc \<in> set (unavailable s) then (Inl StoreError, s)
      else (Inr doc, s\<lparr>comparisonItemsColl := comparisonItemsColl s @ [doc]\<rparr>))"

definition updateDocumentComparisons :: "store \<Rightarrow> comparison \<Rightarrow> (error + comparison) \<times> store" where
  "updateDocumentComparisons s doc =
     (if UpdateComparison doc \<in> set (unavailable s) then (Inl StoreError, s)
      else (Inr doc,
            s\<lparr>comparisonsColl :=
                 map (\<lambda>d. if comparisonId d = comparisonId doc then doc else d)
                   (comparisonsColl s)\<rparr>))"

section \<open>Reading and editing quotes (quote manager)\<close>

text \<open>\<^verbatim>\<open>getQuoteDetails\<close> and \<^verbatim>\<open>getQuoteItems\<close>: every failure, a missing quote included, is
  thrown again as the function's own error.\<close>

definition getQuoteDetails :: "store \<Rightarrow> string \<Rightarrow> error + quote" where
  "getQuoteDetails s qid =
     (case getDocumentQuotes s qid of
        Inr (Some q) \<Rightarrow> Inr q
      | Inr None \<Rightarrow> Inl (Error ''Failed to get quote details. Please try again.'')
      | Inl e \<Rightarrow> Inl (Error ''Failed to get quote details. Please try again.''))"

definition getQuoteItems :: "store \<Rightarrow> string \<Rightarrow> error + quote_item list" where
  "getQuoteItems s qid =
     (case queryQuoteItems s qid of
        Inr its \<Rightarrow> Inr its
      | Inl e \<Rightarrow> Inl (Error ''Failed to get quote items. Please try again.''))"

text \<open>\<^verbatim>\<open>items.reduce((total, item) => total + item.totalPrice, 0)\<close>\<close>

definition sumTotalPrice :: "quote_item list \<Rightarrow> jsnum" where
  "sumTotalPrice its = foldl (\<lambda>total item. js_add total (totalPrice item)) (Fin 0) its"

text \<open>\<^verbatim>\<open>updateQuoteTotalAmount\<close>: a background operation. Whatever fails in it is logged and
  dropped, and a quote that does not exist is left alone; the store is then unchanged.\<close>

definition updateQuoteTotalAmount :: "store \<Rightarrow> string \<Rightarrow> store" where
  "updateQuoteTotalAmount s qid =
     (case getQuoteItems s qid of
        Inl e \<Rightarrow> s
      | Inr its \<Rightarrow>
          (case getDocumentQuotes s qid of
             Inl e \<Rightarrow> s
           | Inr None \<Rightarrow> s
           | Inr (Some q) \<Rightarrow>
               snd (updateDocumentQuotes s (q\<lparr>q_totalAmount := sumTotalPrice its\<rparr>))))"

text \<open>
  The property an edit names, with its new value: \<^verbatim>\<open>[field]: value\<close>. The name may be any
  string. The first nine constructors are the properties of a stored item that the
  records have, each with a value of the type of that property (the verification page
  sends the result of \<^verbatim>\<open>parseInt\<close> or \<^verbatim>\<open>parseFloat\<close> for a number and the text of the
  input for the description). \<open>Other\<close> is any other name: the write adds or replaces a
  property the records do not have (the assignment of \<^verbatim>\<open>updatedAt\<close> that follows in the
  same object literal is such a property too).
\<close>

datatype field_value =
    WidthInches jsnum
  | HeightInches jsnum
  | Quantity jsnum
  | UnitPrice jsnum
  | TotalPrice jsnum
  | Description string
  | ConfidenceScore jsnum
  | QuoteId string
  | ItemId string
  | Other string

fun setField :: "field_value \<Rightarrow> quote_item \<Rightarrow> quote_item" where
  "setField (WidthInches v) item = item\<lparr>widthInches := v\<rparr>"
| "setField (HeightInches v) item = item\<lparr>heightInches := v\<rparr>"
| "setField (Quantity v) item = item\<lparr>quantity := v\<rparr>"
| "setField (UnitPrice v) item = item\<lparr>unitPrice := v\<rparr>"
| "setField (TotalPrice v) item = item\<lparr>totalPrice := v\<rparr>"
| "setField (Description v) item = item\<lparr>description := v\<rparr>"
| "setField (ConfidenceScore v) item = item\<lparr>confidenceScore := v\<rparr>"
| "setField (QuoteId v) item = item\<lparr>quoteId := v\<rparr>"
| "setField (ItemId v) item = item\<lparr>itemId := v\<rparr>"
| "setField (Other name) item = item"

text \<open>The two branches after the assignment: the four fields that recompute the total
  price, the total price that recomputes the unit price, and nothing for the rest.\<close>

fun recalculate :: "field_value \<Rightarrow> quote_item \<Rightarrow> quote_item" where
  "recalculate (WidthInches v) u = u\<lparr>totalPrice := js_mul (unitPrice u) (quantity u)\<rparr>"
| "recalculate (HeightInches v) u = u\<lparr>totalPrice := js_mul (unitPrice u) (quantity u)\<rparr>"
| "recalculate (Quantity v) u = u\<lparr>totalPrice := js_mul (unitPrice u) (quantity u)\<rparr>"
| "recalculate (UnitPrice v) u = u\<lparr>totalPrice := js_mul (unitPrice u) (quantity u)\<rparr>"
| "recalculate (TotalPrice v) u = u\<lparr>unitPrice := js_div v (quantity u)\<rparr>"
| "recalculate fv u = u"

text \<open>\<^verbatim>\<open>updateQuoteItem\<close>: the item is read, changed and written back, and the total
  amount is then derived again for the quote the item named before the edit
  (\<^verbatim>\<open>item.quoteId\<close>).\<close>

definition updateQuoteItem ::
  "store \<Rightarrow> string \<Rightarrow> field_value \<Rightarrow> (error + quote_item) \<times> store" where
  "updateQuoteItem s iid fv =
     (case getDocumentQuoteItems s iid of
        Inr (Some item) \<Rightarrow>
          (let updatedItem = recalculate fv (setField fv item)
           in case updateDocumentQuoteItems s updatedItem of
                (Inr result, s1) \<Rightarrow> (Inr result, updateQuoteTotalAmount s1 (quoteId item))
              | (Inl e, s1) \<Rightarrow>
                  (Inl (Error ''Failed to update quote item. Please try again.''), s1))
      | Inr None \<Rightarrow> (Inl (Error ''Failed to update quote item. Please try again.''), s)
      | Inl e \<Rightarrow> (Inl (Error ''Failed to update quote item. Please try again.''), s))"

section \<open>The pricing call (window calculator)\<close>

text \<open>
  \<^verbatim>\<open>calculatePrice(measurements, options)\<close> validates the measurements, sends them to a
  price sheet behind a remote script and keeps the outcome in a state object with the
  properties \<^verbatim>\<open>calculating\<close>, \<^verbatim>\<open>results\<close> and \<^verbatim>\<open>error\<close>, which it returns. Whatever is
  thrown on the way is caught and recorded in \<^verbatim>\<open>error\<close>: the function itself never throws.

  The request (\<^verbatim>\<open>fetch\<close> of \<^verbatim>\<open>wix-fetch\<close>) and the token kept in the browser's storage are
  outside the program and are parameters: \<open>fetch\<close> gets the token and the data, and it
  answers with a response or rejects with an error, given here by its message. The
  body of a response is an object, \<^verbatim>\<open>null\<close>, or unreadable. A property the body does not
  have reads as \<^verbatim>\<open>undefined\<close> (a number), as false (\<^verbatim>\<open>success\<close>) or as the empty string
  (\<^verbatim>\<open>error\<close>), which is what the tests on it make of it. After an answer with status 401
  the function also removes the token from the storage; no value here depends on that.
\<close>

record measurements =
  m_width :: jsnum
  m_height :: jsnum
  m_quantity :: jsnum

record request_data =
  action :: string
  requestMeasurements :: measurements
  requestOptions :: calc_options

record calc_results =
  res_basePrice :: jsnum
  res_optionsPrice :: jsnum
  res_totalPrice :: jsnum
  res_pricePerWindow :: jsnum
  res_estimatedInstallation :: jsnum
  res_totalProject :: jsnum

record api_response = calc_results +
  success :: bool
  apiError :: string

record http_response =
  http_ok :: bool
  http_status :: nat
  http_json :: "string + api_response option"

record calculator_state =
  calculating :: bool
  results :: "calc_results option"
  error :: "string option"

record remote =
  fetch :: "string option \<Rightarrow> request_data \<Rightarrow> string + http_response"
  googleOAuthToken :: "string option"
  typeErrorMessage :: string

definition MIN_WIDTH :: jsnum where "MIN_WIDTH = Fin 12"
definition MAX_WIDTH :: jsnum where "MAX_WIDTH = Fin 120"
definition MIN_HEIGHT :: jsnum where "MIN_HEIGHT = Fin 12"
definition MAX_HEIGHT :: jsnum where "MAX_HEIGHT = Fin 120"

definition validateMeasurements :: "measurements \<Rightarrow> bool" where
  "validateMeasurements m =
     (if isNaN (m_width m) \<or> js_lt (m_width m) MIN_WIDTH \<or> js_gt (m_width m) MAX_WIDTH
      then False
      else if isNaN (m_height m) \<or> js_lt (m_height m) MIN_HEIGHT
              \<or> js_gt (m_height m) MAX_HEIGHT
      then False
      else True)"

text \<open>The digits of a status code in a template literal.\<close>

fun showNat :: "nat \<Rightarrow> string" where
  "showNat n =
     (if n < 10 then [char_of (48 + n)] else showNat (n div 10) @ [char_of (48 + n mod 10)])"

text \<open>\<^verbatim>\<open>{ success: false, error: message }\<close>\<close>

definition failure :: "string \<Rightarrow> api_response" where
  "failure message =
     \<lparr>res_basePrice = Undefined, res_optionsPrice = Undefined, res_totalPrice = Undefined,
      res_pricePerWindow = Undefined, res_estimatedInstallation = Undefined,
      res_totalProject = Undefined, success = False, apiError = message\<rparr>"

text \<open>\<^verbatim>\<open>callGoogleSheetsAPI\<close>: \<open>None\<close> is a body that reads as \<^verbatim>\<open>null\<close>.\<close>

definition callGoogleSheetsAPI :: "remote \<Rightarrow> request_data \<Rightarrow> api_response option" where
  "callGoogleSheetsAPI env data =
     (case fetch env (googleOAuthToken env) data of
        Inl message \<Rightarrow> Some (failure message)
      | Inr response \<Rightarrow>
          if \<not> http_ok response
          then (if http_status response = 401
                then Some (failure ''Authentication required. Please log in again.'')
                else Some (failure (''API call failed with status: ''
                                    @ showNat (http_status response))))
          else (case http_json response of
                  Inl message \<Rightarrow> Some (failure message)
                | Inr body \<Rightarrow> body))"

definition calculatePrice :: "remote \<Rightarrow> measurements \<Rightarrow> calc_options \<Rightarrow> calculator_state" where
  "calculatePrice env m opts =
     (if \<not> validateMeasurements m
      then \<lparr>calculating = False, results = None,
            error = Some ''Invalid measurements. Please check width and height values.''\<rparr>
      else
        (let requestData =
               \<lparr>action = ''calculatePrice'',
                requestMeasurements =
                  \<lparr>m_width = m_width m, m_height = m_height m,
                   m_quantity = (if falsy (m_quantity m) then Fin 1 else m_quantity m)\<rparr>,
                requestOptions =
                  \<lparr>windowType = (if windowType opts = [] then ''double-hung''
                                 else windowType opts),
                   material = (if material opts = [] then ''vinyl'' else material opts),
                   glassType = (if glassType opts = [] then ''double-pane''
                                else glassType opts)\<rparr>\<rparr>
         in case callGoogleSheetsAPI env requestData of
              None \<Rightarrow>
                \<lparr>calculating = False, results = None, error = Some (typeErrorMessage env)\<rparr>
            | Some response \<Rightarrow>
                if success response
                then \<lparr>calculating = False,
                      results =
                        Some \<lparr>res_basePrice = res_basePrice response,
                              res_optionsPrice = res_optionsPrice response,
                              res_totalPrice = res_totalPrice response,
                              res_pricePerWindow = res_pricePerWindow response,
                              res_estimatedInstallation = res_estimatedInstallation response,
                              res_totalProject = res_totalProject response\<rparr>,
                      error = None\<rparr>
                else \<lparr>calculating = False, results = None,
                      error =
                        Some (if apiError response = []
                              then ''Failed to calculate price. Please try again.''
                              else apiError response)\<rparr>))"

section \<open>Generating a comparison (comparison manager)\<close>

text \<open>
  The product manager (\<^verbatim>\<open>getProducts\<close>, \<^verbatim>\<open>matchProduct\<close>) is not among the sources: its two
  functions are parameters, each returning a result or throwing. \<^verbatim>\<open>matchProduct\<close> may
  return no product (\<^verbatim>\<open>null\<close> or \<^verbatim>\<open>undefined\<close>), and then every read of a property of it
  throws a \<^verbatim>\<open>TypeError\<close>. \<open>generateId\<close> is the identifier drawn for the comparison, and
  \<open>pricing\<close> is what the pricing call depends on.
\<close>

record product =
  productId :: string
  productName :: string
  productDescription :: string
  materialType :: string
  basePrice :: jsnum

record matched_product = product +
  confidence :: jsnum

record price_calculation =
  calc_totalPrice :: jsnum
  calc_pricePerWindow :: jsnum
  calc_basePrice :: jsnum
  calc_optionsPrice :: jsnum
  options :: calc_options

record services =
  matchProduct :: "quote_item \<Rightarrow> product list \<Rightarrow> error + matched_product option"
  getProducts :: "error + product list"
  generateId :: string
  pricing :: remote

text \<open>The measurements and the options \<^verbatim>\<open>calculateWarnkePrice\<close> sends to the pricing
  call.\<close>

definition measurementsOf :: "quote_item \<Rightarrow> measurements" where
  "measurementsOf quoteItem =
     \<lparr>m_width = widthInches quoteItem, m_height = heightInches quoteItem,
      m_quantity = quantity quoteItem\<rparr>"

definition optionsOf :: "quote_item \<Rightarrow> matched_product \<Rightarrow> calc_options" where
  "optionsOf quoteItem p =
     \<lparr>windowType = mapWindowType (productName p),
      material = mapMaterial (materialType p),
      glassType = mapGlassType (description quoteItem)\<rparr>"

text \<open>
  \<^verbatim>\<open>calculation.totalPrice\<close>, \<^verbatim>\<open>calculation.pricePerWindow\<close>, \<^verbatim>\<open>calculation.basePrice\<close> and
  \<^verbatim>\<open>calculation.optionsPrice\<close>, where \<^verbatim>\<open>calculation\<close> is the object the pricing call
  returned. That object is the state: its properties are \<^verbatim>\<open>calculating\<close>, \<^verbatim>\<open>results\<close> and
  \<^verbatim>\<open>error\<close>, and the prices lie one level further down, in \<^verbatim>\<open>results\<close>. A property the
  object does not have reads as \<^verbatim>\<open>undefined\<close>.
\<close>

datatype price_name = TotalPriceName | PricePerWindowName | BasePriceName | OptionsPriceName

definition priceProperty :: "calculator_state \<Rightarrow> price_name \<Rightarrow> jsnum" where
  "priceProperty calculation name = Undefined"

text \<open>The \<^verbatim>\<open>try\<close> block of \<^verbatim>\<open>calculateWarnkePrice\<close>, and the function with its \<^verbatim>\<open>catch\<close>:
  the fallback reads the matched product again.\<close>

definition priceAttempt ::
  "services \<Rightarrow> quote_item \<Rightarrow> matched_product option \<Rightarrow> error + price_calculation" where
  "priceAttempt svc quoteItem matchedProduct =
     (case matchedProduct of
        None \<Rightarrow> Inl TypeError
      | Some p \<Rightarrow>
          (let calculation =
                 calculatePrice (pricing svc) (measurementsOf quoteItem) (optionsOf quoteItem p)
           in Inr \<lparr>calc_totalPrice = priceProperty calculation TotalPriceName,
                   calc_pricePerWindow = priceProperty calculation PricePerWindowName,
                   calc_basePrice = priceProperty calculation BasePriceName,
                   calc_optionsPrice = priceProperty calculation OptionsPriceName,
                   options = optionsOf quoteItem p\<rparr>))"

definition calculateWarnkePrice ::
  "services \<Rightarrow> quote_item \<Rightarrow> matched_product option \<Rightarrow> error + price_calculation" where
  "calculateWarnkePrice svc quoteItem matchedProduct =
     (case priceAttempt svc quoteItem matchedProduct of
        Inr r \<Rightarrow> Inr r
      | Inl e \<Rightarrow>
          (case matchedProduct of
             None \<Rightarrow> Inl TypeError
           | Some p \<Rightarrow>
               Inr \<lparr>calc_totalPrice = js_mul (quantity quoteItem) (basePrice p),
                    calc_pricePerWindow = basePrice p,
                    calc_basePrice = basePrice p,
                    calc_optionsPrice = Fin 0,
                    options = \<lparr>windowType = ''double-hung'', material = ''vinyl'',
                               glassType = ''double-pane''\<rparr>\<rparr>))"

text \<open>The body of the loop of \<^verbatim>\<open>generateComparisonItems\<close> up to the comparison item it
  builds, then with the write that persists it.\<close>

definition buildComparisonItem ::
  "services \<Rightarrow> string \<Rightarrow> product list \<Rightarrow> quote_item \<Rightarrow> error + comparison_item" where
  "buildComparisonItem svc cid products quoteItem =
     (case matchProduct svc quoteItem products of
        Inl e \<Rightarrow> Inl e
      | Inr matchedProduct \<Rightarrow>
          (case calculateWarnkePrice svc quoteItem matchedProduct of
             Inl e \<Rightarrow> Inl e
           | Inr priceCalculation \<Rightarrow>
               (case matchedProduct of
                  None \<Rightarrow> Inl TypeError
                | Some p \<Rightarrow>
                    Inr \<lparr>ci_comparisonId = cid,
                         quoteItemId = itemId quoteItem,
                         competitorProductDescription = description quoteItem,
                         competitorOptions = extractOptions (description quoteItem),
                         competitorPrice = totalPrice quoteItem,
                         warnkeProductId = productId p,
                         warnkeProductName = productName p,
                         warnkeProductDescription = productDescription p,
                         warnkeOptions = formatOptions (options priceCalculation),
                         warnkePrice = calc_totalPrice priceCalculation,
                         width = widthInches quoteItem,
                         height = heightInches quoteItem,
                         ci_quantity = quantity quoteItem,
                         ci_savingsAmount =
                           js_sub (totalPrice quoteItem) (calc_totalPrice priceCalculation),
                         ci_savingsPercentage =
                           (if js_gt (totalPrice quoteItem) (Fin 0)
                            then js_mul
                                   (js_div
                                      (js_sub (totalPrice quoteItem)
                                         (calc_totalPrice priceCalculation))
                                      (totalPrice quoteItem))
                                   (Fin 100)
                            else Fin 0),
                         matchConfidence = confidence p\<rparr>)))"

definition processQuoteItem ::
  "services \<Rightarrow> store \<Rightarrow> string \<Rightarrow> product list \<Rightarrow> quote_item
   \<Rightarrow> (error + comparison_item) \<times> store" where
  "processQuoteItem svc s cid products quoteItem =
     (case buildComparisonItem svc cid products quoteItem of
        Inl e \<Rightarrow> (Inl e, s)
      | Inr comparisonItem \<Rightarrow> createDocumentComparisonItems s comparisonItem)"

text \<open>The loop: an item whose body throws is logged and the loop goes on.\<close>

fun comparisonItemsLoop ::
  "services \<Rightarrow> store \<Rightarrow> string \<Rightarrow> product list \<Rightarrow> quote_item list \<Rightarrow> comparison_item list
   \<Rightarrow> comparison_item list \<times> store" where
  "comparisonItemsLoop svc s cid products [] comparisonItems = (comparisonItems, s)"
| "comparisonItemsLoop svc s cid products (quoteItem # rest) comparisonItems =
     (case processQuoteItem svc s cid products quoteItem of
        (Inr createdItem, s1) \<Rightarrow>
          comparisonItemsLoop svc s1 cid products rest (comparisonItems @ [createdItem])
      | (Inl e, s1) \<Rightarrow> comparisonItemsLoop svc s1 cid products rest comparisonItems)"

definition generateComparisonItems ::
  "services \<Rightarrow> store \<Rightarrow> string \<Rightarrow> quote_item list \<Rightarrow> product list
   \<Rightarrow> comparison_item list \<times> store" where
  "generateComparisonItems svc s cid quoteItems products =
     comparisonItemsLoop svc s cid products quoteItems []"

text \<open>\<^verbatim>\<open>comparisonItems.reduce((total, item) => total + item.warnkePrice, 0)\<close>\<close>

definition sumWarnkePrice :: "comparison_item list \<Rightarrow> jsnum" where
  "sumWarnkePrice comparisonItems =
     foldl (\<lambda>total item. js_add total (warnkePrice item)) (Fin 0) comparisonItems"

record generated =
  resultComparison :: comparison
  resultItems :: "comparison_item list"

definition generationFailed :: error where
  "generationFailed = Error ''Failed to generate comparison. Please try again.''"

definition generateComparison ::
  "services \<Rightarrow> store \<Rightarrow> string \<Rightarrow> string \<Rightarrow> (error + generated) \<times> store" where
  "generateComparison svc s qid pid =
     (case (getQuoteDetails s qid, getQuoteItems s qid, getProducts svc) of
        (Inr quote, Inr quoteItems, Inr products) \<Rightarrow>
          (let comparisonData =
                 \<lparr>c_projectId = pid, c_quoteId = qid,
                  c_competitorName = q_competitorName quote,
                  totalCompetitorPrice = q_totalAmount quote,
                  totalWarnkePrice = Fin 0, savingsAmount = Fin 0, savingsPercentage = Fin 0,
                  status = ''generated'', comparisonId = generateId svc\<rparr>
           in case createDocumentComparisons s comparisonData of
                (Inl e, s1) \<Rightarrow> (Inl generationFailed, s1)
              | (Inr comparison, s1) \<Rightarrow>
                  (case generateComparisonItems svc s1 (comparisonId comparison) quoteItems
                          products of
                     (comparisonItems, s2) \<Rightarrow>
                       (let total = sumWarnkePrice comparisonItems;
                            savings = js_sub (q_totalAmount quote) total;
                            percentage =
                              (if js_gt (q_totalAmount quote) (Fin 0)
                               then js_mul (js_div savings (q_totalAmount quote)) (Fin 100)
                               else Fin 0)
                        in case updateDocumentComparisons s2
                                  (comparison\<lparr>totalWarnkePrice := total,
                                     savingsAmount := savings,
                                     savingsPercentage := percentage\<rparr>) of
                             (Inl e, s3) \<Rightarrow> (Inl generationFailed, s3)
                           | (Inr updatedComparison, s3) \<Rightarrow>
                               (Inr \<lparr>resultComparison = updatedComparison,
                                     resultItems = comparisonItems\<rparr>, s3))))
      | _ \<Rightarrow> (Inl generationFailed, s))"

section \<open>Auxiliary notions for the statements\<close>

text \<open>The comparison \<^verbatim>\<open>generateComparison\<close> writes back once the items are known.\<close>

definition finalComparison ::
  "services \<Rightarrow> string \<Rightarrow> string \<Rightarrow> quote \<Rightarrow> comparison_item list \<Rightarrow> comparison" where
  "finalComparison svc qid pid quote comparisonItems =
     \<lparr>c_projectId = pid, c_quoteId = qid, c_competitorName = q_competitorName quote,
      totalCompetitorPrice = q_totalAmount quote,
      totalWarnkePrice = sumWarnkePrice comparisonItems,
      savingsAmount = js_sub (q_totalAmount quote) (sumWarnkePrice comparisonItems),
      savingsPercentage =
        (if js_gt (q_totalAmount quote) (Fin 0)
         then js_mul
                (js_div (js_sub (q_totalAmount quote) (sumWarnkePrice comparisonItems))
                   (q_totalAmount quote))
                (Fin 100)
         else Fin 0),
      status = ''generated'', comparisonId = generateId svc\<rparr>"

text \<open>What one pass of the loop body yields for a quote item: the created comparison
  item, or nothing when the body throws.\<close>

definition createdFor ::
  "services \<Rightarrow> store \<Rightarrow> string \<Rightarrow> product list \<Rightarrow> quote_item \<Rightarrow> comparison_item option" where
  "createdFor svc s cid products quoteItem =
     (case fst (processQuoteItem svc s cid products quoteItem) of
        Inr createdItem \<Rightarrow> Some createdItem
      | Inl e \<Rightarrow> None)"

text \<open>
  The labels as the specification of the parser names them, and a text that has one of
  them, whatever the case of its letters. The parser itself has patterns, not labels;
  these lists serve to state what it does on a text without a label.
\<close>

definition specQuoteNumberLabels :: "string list" where
  "specQuoteNumberLabels = [''Quote #'', ''Quote Number:'', ''Estimate #'']"

definition specTotalLabels :: "string list" where
  "specTotalLabels = [''Total:'', ''Grand Total:'', ''Amount Due:'']"

definition mentions :: "string list \<Rightarrow> string \<Rightarrow> bool" where
  "mentions labels txt =
     list_ex (\<lambda>label. js_includes (toLowerCase txt) (toLowerCase label)) labels"

text \<open>The edits after which \<^verbatim>\<open>updateQuoteItem\<close> recomputes the total price, and those
  after which it recomputes nothing.\<close>

fun recomputesTotal :: "field_value \<Rightarrow> bool" where
  "recomputesTotal (WidthInches v) = True"
| "recomputesTotal (HeightInches v) = True"
| "recomputesTotal (Quantity v) = True"
| "recomputesTotal (UnitPrice v) = True"
| "recomputesTotal fv = False"

fun keepsPrices :: "field_value \<Rightarrow> bool" where
  "keepsPrices (Description v) = True"
| "keepsPrices (ConfidenceScore v) = True"
| "keepsPrices (QuoteId v) = True"
| "keepsPrices (ItemId v) = True"
| "keepsPrices (Other name) = True"
| "keepsPrices fv = False"

section \<open>Example data\<close>

text \<open>The text of the round-trip scenario, with its three line feeds.\<close>

definition sampleText :: string where
  "sampleText =
     ''Quote #AB-1234'' @ [CHR 0x0A] @ ''Date: 03/15/2024'' @ [CHR 0x0A]
     @ ''36 x 60 Low-E Argon $450.00'' @ [CHR 0x0A] @ ''Total: $450.00''"

text \<open>An engine that reads \<^verbatim>\<open>03/15/2024\<close> as month, day, year.\<close>

definition sampleEngine :: engine where
  "sampleEngine =
     \<lparr>newDate = (\<lambda>s. if s = ''03/15/2024'' then Some \<lparr>year = 2024, month = 3, day = 15\<rparr>
                      else None),
      numberToString = (\<lambda>n. [])\<rparr>"

text \<open>A quote with three items, a catalogue of one product, a matcher that finds no
  product for the second item, and a price sheet that answers every request with 400 a
  window.\<close>

definition item1 :: quote_item where
  "item1 =
     \<lparr>widthInches = Fin 36, heightInches = Fin 60, description = ''Low-E Argon'',
      quantity = Fin 2, unitPrice = Fin 225, totalPrice = Fin 450,
      confidenceScore = toDouble (8 / 10), quoteId = ''Q1'', itemId = ''I1''\<rparr>"

definition item2 :: quote_item where
  "item2 =
     \<lparr>widthInches = Fin 30, heightInches = Fin 48, description = ''Casement tempered'',
      quantity = Fin 1, unitPrice = Fin 500, totalPrice = Fin 500,
      confidenceScore = toDouble (8 / 10), quoteId = ''Q1'', itemId = ''I2''\<rparr>"

definition item3 :: quote_item where
  "item3 =
     \<lparr>widthInches = Fin 24, heightInches = Fin 36, description = ''Triple pane'',
      quantity = Fin 2, unitPrice = Fin 275, totalPrice = Fin 550,
      confidenceScore = toDouble (8 / 10), quoteId = ''Q1'', itemId = ''I3''\<rparr>"

definition quote1 :: quote where
  "quote1 =
     \<lparr>q_quoteId = ''Q1'', q_projectId = ''P1'', q_competitorName = ''pella'',
      q_extractionStatus = ''processed'', q_quoteNumber = ''AB-1234'', q_quoteDate = None,
      q_totalAmount = Fin 2000, q_itemsCount = 3\<rparr>"

definition store1 :: store where
  "store1 =
     \<lparr>quotesColl = [quote1], quoteItemsColl = [item1, item2, item3], comparisonsColl = [],
      comparisonItemsColl = [], unavailable = []\<rparr>"

definition product1 :: product where
  "product1 =
     \<lparr>productId = ''W-100'', productName = ''Classic Double-Hung'',
      productDescription = ''Vinyl double-hung window'', materialType = ''Vinyl'',
      basePrice = Fin 300\<rparr>"

definition matched1 :: matched_product where
  "matched1 =
     \<lparr>productId = ''W-100'', productName = ''Classic Double-Hung'',
      productDescription = ''Vinyl double-hung window'', materialType = ''Vinyl'',
      basePrice = Fin 300, confidence = Fin (9 / 10)\<rparr>"

definition sheetAnswer :: "request_data \<Rightarrow> api_response" where
  "sheetAnswer data =
     \<lparr>res_basePrice = Fin 350, res_optionsPrice = Fin 50,
      res_totalPrice = js_mul (m_quantity (requestMeasurements data)) (Fin 400),
      res_pricePerWindow = Fin 400, res_estimatedInstallation = Fin 150,
      res_totalProject = js_add (js_mul (m_quantity (requestMeasurements data)) (Fin 400)) (Fin 150),
      success = True, apiError = []\<rparr>"

definition remote1 :: remote where
  "remote1 =
     \<lparr>fetch = (\<lambda>token data.
                 Inr \<lparr>http_ok = True, http_status = 200,
                      http_json = Inr (Some (sheetAnswer data))\<rparr>),
      googleOAuthToken = Some ''ya29.token'',
      typeErrorMessage = ''Cannot read properties of null''\<rparr>"

definition services1 :: services where
  "services1 =
     \<lparr>matchProduct = (\<lambda>q ps. if itemId q = ''I2'' then Inr None else Inr (Some matched1)),
      getProducts = Inr [product1],
      generateId = ''C1'',
      pricing = remote1\<rparr>"

text \<open>The same services while the request to the price sheet is rejected.\<close>

definition remoteDown :: remote where
  "remoteDown = remote1\<lparr>fetch := (\<lambda>token data. Inl ''Pricing service unavailable'')\<rparr>"

definition servicesDown :: services where
  "servicesDown = services1\<lparr>pricing := remoteDown\<rparr>"

text \<open>An item too narrow for the window calculator, whose lower bound is 12 inches.\<close>

definition itemNarrow :: quote_item where
  "itemNarrow =
     \<lparr>widthInches = Fin 10, heightInches = Fin 36, description = ''Sidelight'',
      quantity = Fin 2, unitPrice = Fin 120, totalPrice = Fin 240,
      confidenceScore = toDouble (8 / 10), quoteId = ''Q1'', itemId = ''I4''\<rparr>"

text \<open>A store with two items of quantity zero: one whose total price is the unit price
  times that quantity, and the item \<^verbatim>\<open>parseQuoteText\<close> returns for a line with \<^verbatim>\<open>qty 0\<close>,
  once stored.\<close>

definition itemZero :: quote_item where
  "itemZero =
     \<lparr>widthInches = Fin 36, heightInches = Fin 60, description = ''Sash'',
      quantity = Fin 0, unitPrice = Fin 50, totalPrice = Fin 0,
      confidenceScore = toDouble (8 / 10), quoteId = ''Q1'', itemId = ''I9''\<rparr>"

definition itemParsedZero :: quote_item where
  "itemParsedZero =
     \<lparr>widthInches = Fin 36, heightInches = Fin 60, description = ''Sash'',
      quantity = Fin 0, unitPrice = PosInf, totalPrice = Fin 450,
      confidenceScore = toDouble (8 / 10), quoteId = ''Q1'', itemId = ''I8''\<rparr>"

definition storeZero :: store where
  "storeZero =
     \<lparr>quotesColl = [quote1], quoteItemsColl = [itemZero, itemParsedZero],
      comparisonsColl = [], comparisonItemsColl = [], unavailable = []\<rparr>"


text \<open>The store of the three items while it rejects the query of the items of the
  quote.\<close>

definition storeBusy :: store where
  "storeBusy = store1\<lparr>unavailable := [QueryQuoteItems ''Q1'']\<rparr>"

text \<open>A store with two quotes and an item of three windows in each.\<close>

definition itemTriple :: quote_item where
  "itemTriple =
     \<lparr>widthInches = Fin 36, heightInches = Fin 60, description = ''Picture window'',
      quantity = Fin 3, unitPrice = Fin 100, totalPrice = Fin 300,
      confidenceScore = toDouble (8 / 10), quoteId = ''Q1'', itemId = ''I5''\<rparr>"

definition itemOther :: quote_item where
  "itemOther =
     \<lparr>widthInches = Fin 24, heightInches = Fin 48, description = ''Awning window'',
      quantity = Fin 3, unitPrice = Fin 200, totalPrice = Fin 600,
      confidenceScore = toDouble (8 / 10), quoteId = ''Q2'', itemId = ''I6''\<rparr>"

definition quoteA :: quote where
  "quoteA = quote1\<lparr>q_totalAmount := Fin 300, q_itemsCount := 1\<rparr>"

definition quoteB :: quote where
  "quoteB =
     \<lparr>q_quoteId = ''Q2'', q_projectId = ''P1'', q_competitorName = ''andersen'',
      q_extractionStatus = ''processed'', q_quoteNumber = ''E-77'', q_quoteDate = None,
      q_totalAmount = Fin 600, q_itemsCount = 1\<rparr>"

definition storeTwo :: store where
  "storeTwo =
     \<lparr>quotesColl = [quoteA, quoteB], quoteItemsColl = [itemTriple, itemOther],
      comparisonsColl = [], comparisonItemsColl = [], unavailable = []\<rparr>"

section \<open>Attribute mapping and option extraction: proofs\<close>

text \<open>
  Claim C4. For every string, \<open>mapWindowType\<close>, \<open>mapMaterial\<close> and \<open>mapGlassType\<close>
  return one of their canonical values (eight window types, five materials, three glass
  types), and an input in which none of the keywords occurs is mapped to the default:
  double-hung, vinyl, double-pane. The functions are total on strings.
\<close>

theorem mapping_total:
  "mapWindowType s \<in> windowTypes \<and> mapMaterial s \<in> materials \<and> mapGlassType s \<in> glassTypes
   \<and> (\<not> recognised windowTypeKeywords s \<longrightarrow> mapWindowType s = ''double-hung'')
   \<and> (\<not> recognised materialKeywords s \<longrightarrow> mapMaterial s = ''vinyl'')
   \<and> (\<not> recognised glassTypeKeywords s \<longrightarrow> mapGlassType s = ''double-pane'')"
proof -
  have "mapWindowType s \<in> windowTypes"
    by (simp add: mapWindowType_def windowTypes_def Let_def)
  moreover have "mapMaterial s \<in> materials"
    by (simp add: mapMaterial_def materials_def Let_def)
  moreover have "mapGlassType s \<in> glassTypes"
    by (simp add: mapGlassType_def glassTypes_def Let_def)
  moreover have "\<not> recognised windowTypeKeywords s \<longrightarrow> mapWindowType s = ''double-hung''"
    by (simp add: mapWindowType_def recognised_def windowTypeKeywords_def Let_def)
  moreover have "\<not> recognised materialKeywords s \<longrightarrow> mapMaterial s = ''vinyl''"
    by (simp add: mapMaterial_def recognised_def materialKeywords_def Let_def)
  moreover have "\<not> recognised glassTypeKeywords s \<longrightarrow> mapGlassType s = ''double-pane''"
    by (simp add: mapGlassType_def recognised_def glassTypeKeywords_def Let_def)
  ultimately show ?thesis by blast
qed

lemma unrecognised_example:
  "\<not> recognised windowTypeKeywords ''Premium Unit''"
  "\<not> recognised materialKeywords ''Premium Unit''"
  "\<not> recognised glassTypeKeywords ''Premium Unit''"
  by code_simp+

theorem mapping_total_witness:
  "\<not> recognised windowTypeKeywords ''Premium Unit''
   \<and> \<not> recognised materialKeywords ''Premium Unit''
   \<and> \<not> recognised glassTypeKeywords ''Premium Unit''
   \<and> mapWindowType ''Premium Unit'' = ''double-hung''
   \<and> mapMaterial ''Premium Unit'' = ''vinyl''
   \<and> mapGlassType ''Premium Unit'' = ''double-pane''"
  using mapping_total [of "''Premium Unit''"] unrecognised_example by blast

lemma pushIf_subseq: "subseq (pushIf b label) [label]"
  by (simp add: pushIf_def)

text \<open>
  Claim C5. For every description, the labels \<open>extractOptions\<close> collects are pairwise
  different and stand in the order of the checks (Low-E Glass, Argon Gas, ENERGY STAR,
  Tempered Glass, Grids, Screens, Tilt Feature), whatever the order of the keywords in
  the description; the string the function returns is that list joined with a comma and
  a space.
\<close>

theorem options_in_check_order:
  "distinct (extractOptionLabels d)
   \<and> subseq (extractOptionLabels d) optionCheckOrder
   \<and> extractOptions d = join '', '' (extractOptionLabels d)
   \<and> extractOptionLabels ''tilt screens argon low-e''
       = [''Low-E Glass'', ''Argon Gas'', ''Screens'', ''Tilt Feature'']"
proof -
  have "distinct (extractOptionLabels d)"
    by (simp add: extractOptionLabels_def pushIf_def)
  moreover have "subseq (extractOptionLabels d) optionCheckOrder"
  proof -
    have "subseq (extractOptionLabels d)
            ([''Low-E Glass''] @ [''Argon Gas''] @ [''ENERGY STAR''] @ [''Tempered Glass'']
             @ [''Grids''] @ [''Screens''] @ [''Tilt Feature''])"
      unfolding extractOptionLabels_def
      by (intro list_emb_append_mono pushIf_subseq)
    then show ?thesis by (simp add: optionCheckOrder_def)
  qed
  moreover have "extractOptions d = join '', '' (extractOptionLabels d)"
    by (simp add: extractOptions_def)
  moreover have "extractOptionLabels ''tilt screens argon low-e''
       = [''Low-E Glass'', ''Argon Gas'', ''Screens'', ''Tilt Feature'']"
    by code_simp
  ultimately show ?thesis by blast
qed

section \<open>Parsing: proofs\<close>

lemma sample_parse:
  "parseQuoteText eng sampleText =
     \<lparr>quoteNumber = ''AB-1234'', quoteDate = newDate eng ''03/15/2024'',
      totalAmount = Fin 450,
      items = [\<lparr>widthInches = Fin 36, heightInches = Fin 60, description = ''Low-E Argon'',
                quantity = Fin 1, unitPrice = Fin 450, totalPrice = Fin 450,
                confidenceScore = toDouble (8 / 10)\<rparr>]\<rparr>"
  unfolding sampleText_def by code_simp

lemma sample_options:
  "extractOptionLabels ''Low-E Argon'' = [''Low-E Glass'', ''Argon Gas'']"
  "extractOptions ''Low-E Argon'' = ''Low-E Glass, Argon Gas''"
  by code_simp+

text \<open>
  Claim C6. On the text \<^verbatim>\<open>Quote #AB-1234\<close>, \<^verbatim>\<open>Date: 03/15/2024\<close>,
  \<^verbatim>\<open>36 x 60 Low-E Argon $450.00\<close>, \<^verbatim>\<open>Total: $450.00\<close> (four lines), \<open>parseQuoteText\<close> returns
  the quote number AB-1234, the total amount 450 and exactly one item, of width 36,
  height 60, quantity 1, unit price 450, total price 450 and confidence 0.8 (the double
  of that literal); the quote
  date is what the engine's \<^verbatim>\<open>Date\<close> makes of the token \<^verbatim>\<open>03/15/2024\<close>, so March 15, 2024
  for an engine that reads it as month, day, year; and \<open>extractOptions\<close> on the item's
  description finds Low-E Glass and Argon Gas.
\<close>

theorem dimension_round_trip:
  assumes "newDate eng ''03/15/2024'' = Some \<lparr>year = 2024, month = 3, day = 15\<rparr>"
  shows "parseQuoteText eng sampleText =
           \<lparr>quoteNumber = ''AB-1234'',
            quoteDate = Some \<lparr>year = 2024, month = 3, day = 15\<rparr>,
            totalAmount = Fin 450,
            items = [\<lparr>widthInches = Fin 36, heightInches = Fin 60,
                      description = ''Low-E Argon'', quantity = Fin 1, unitPrice = Fin 450,
                      totalPrice = Fin 450, confidenceScore = toDouble (8 / 10)\<rparr>]\<rparr>
         \<and> map (\<lambda>it. extractOptionLabels (description it)) (items (parseQuoteText eng sampleText))
             = [[''Low-E Glass'', ''Argon Gas'']]
         \<and> map (\<lambda>it. extractOptions (description it)) (items (parseQuoteText eng sampleText))
             = [''Low-E Glass, Argon Gas'']"
  using assms by (simp add: sample_parse sample_options)

theorem dimension_round_trip_witness:
  "newDate sampleEngine ''03/15/2024'' = Some \<lparr>year = 2024, month = 3, day = 15\<rparr>
   \<and> parseQuoteText sampleEngine sampleText =
       \<lparr>quoteNumber = ''AB-1234'',
        quoteDate = Some \<lparr>year = 2024, month = 3, day = 15\<rparr>,
        totalAmount = Fin 450,
        items = [\<lparr>widthInches = Fin 36, heightInches = Fin 60,
                  description = ''Low-E Argon'', quantity = Fin 1, unitPrice = Fin 450,
                  totalPrice = Fin 450, confidenceScore = toDouble (8 / 10)\<rparr>]\<rparr>"
proof -
  have d: "newDate sampleEngine ''03/15/2024'' = Some \<lparr>year = 2024, month = 3, day = 15\<rparr>"
    by (simp add: sampleEngine_def)
  from dimension_round_trip [OF d] d show ?thesis by blast
qed


subsection \<open>A pattern that matches leaves its parts in the text\<close>

lemma matchAt_None: "matchAt ic r s i = None \<longleftrightarrow> matchRe ic r s = []"
  by (simp add: matchAt_def split: list.splits)

lemma searchFrom_None:
  "searchFrom ic r s i = None \<longleftrightarrow> (\<forall>t. suffix t s \<longrightarrow> matchRe ic r t = [])"
proof (induction s arbitrary: i)
  case Nil
  then show ?case by (simp add: matchAt_None)
next
  case (Cons c s)
  show ?case
  proof (cases "matchAt ic r (c # s) i")
    case None
    then have "matchRe ic r (c # s) = []" by (simp add: matchAt_None)
    with None Cons show ?thesis by (auto simp: suffix_Cons)
  next
    case (Some m)
    then have "matchRe ic r (c # s) \<noteq> []" using matchAt_None[of ic r "c # s" i] by simp
    with Some show ?thesis by (auto simp: suffix_Cons)
  qed
qed

lemma test_iff: "test ic r s \<longleftrightarrow> (\<exists>t. suffix t s \<and> matchRe ic r t \<noteq> [])"
  using searchFrom_None[of ic r s 0] by (auto simp: test_def js_match_def)

lemma js_match_None: "\<not> test ic r s \<Longrightarrow> js_match ic r s = None"
  by (simp add: test_def)

lemma matchLit_suffix: "matchLit ic w s = Some t \<Longrightarrow> suffix t s"
  by (induction ic w s rule: matchLit.induct) (auto simp: suffix_Cons split: if_splits)

lemma matchRe_suffix: "m \<in> set (matchRe ic r s) \<Longrightarrow> suffix (snd m) s"
proof (induction r arbitrary: m s)
  case (Lit w)
  then show ?case by (auto split: option.splits dest: matchLit_suffix[OF sym])
next
  case (Rep cls lo hi)
  then show ?case by (auto simp: Let_def suffix_drop)
next
  case (Opt r)
  from Opt.prems have "m \<in> set (matchRe ic r s) \<or> m = ([], s)" by auto
  then show ?case using Opt.IH[of m s] by auto
next
  case (Seq r1 r2)
  then obtain m1 m2 where m1: "m1 \<in> set (matchRe ic r1 s)"
    and m2: "m2 \<in> set (matchRe ic r2 (snd m1))" and "snd m = snd m2"
    by (auto simp: withCaptures_def)
  with Seq.IH show ?case by (metis suffix_order.trans)
next
  case (Alt r1 r2)
  from Alt.prems have "m \<in> set (matchRe ic r1 s) \<or> m \<in> set (matchRe ic r2 s)" by auto
  then show ?case using Alt.IH(1)[of m s] Alt.IH(2)[of m s] by auto
next
  case (Grp k r)
  from Grp.prems obtain m1 where "m1 \<in> set (matchRe ic r s)" "snd m = snd m1" by auto
  then show ?case using Grp.IH[of m1 s] by simp
qed

lemma seqs_Cons: "seqs (a # rs) = Seq a (seqs rs)"
  by (simp add: seqs_def)

lemma matchRe_Seq_nonempty:
  "matchRe ic (Seq a b) s \<noteq> [] \<longleftrightarrow> (\<exists>m \<in> set (matchRe ic a s). matchRe ic b (snd m) \<noteq> [])"
  by (auto simp: withCaptures_def)

lemma test_Seq_fst: "test ic (Seq a b) s \<Longrightarrow> test ic a s"
  unfolding test_iff matchRe_Seq_nonempty by (metis empty_iff list.set(1))

lemma test_Seq_snd: "test ic (Seq a b) s \<Longrightarrow> test ic b s"
  unfolding test_iff matchRe_Seq_nonempty by (meson matchRe_suffix suffix_order.trans)

text \<open>A grand total is a total: the second pattern matches only where the first one
  does.\<close>

lemma test_grandTotal: "test True grandTotalRe s \<Longrightarrow> test True totalRe s"
proof -
  assume "test True grandTotalRe s"
  then have "test True (Seq ws totalRe) s"
    unfolding grandTotalRe_def totalRe_def seqs_Cons by (rule test_Seq_snd)
  then show ?thesis by (rule test_Seq_snd)
qed

text \<open>The date token has no letter in it, so the flag \<^verbatim>\<open>/i\<close> changes nothing for it.\<close>

lemma toUpperChar_cases:
  "toUpperChar c = c \<or>
   (toUpperChar c = char_of ((of_char c :: int) - 32) \<and>
    ((97 \<le> (of_char c :: int) \<and> (of_char c :: int) \<le> 122) \<or>
     (224 \<le> (of_char c :: int) \<and> (of_char c :: int) \<le> 254)))"
  by (simp add: toUpperChar_def Let_def)

lemma toUpperChar_separator:
  "toUpperChar c \<in> set ''/-.'' \<longleftrightarrow> c \<in> set ''/-.''"
proof (cases "toUpperChar c = c")
  case True
  then show ?thesis by simp
next
  case False
  with toUpperChar_cases[of c]
  have r: "toUpperChar c = char_of ((of_char c :: int) - 32)"
    and rng: "(97 \<le> (of_char c :: int) \<and> (of_char c :: int) \<le> 122) \<or>
              (224 \<le> (of_char c :: int) \<and> (of_char c :: int) \<le> 254)"
    by auto
  have "of_char (toUpperChar c) = ((of_char c :: int) - 32) mod 256"
    unfolding r by simp
  then have u: "(of_char (toUpperChar c) :: int) = of_char c - 32"
    using rng by auto
  have "(of_char (toUpperChar c) :: int) \<notin> {47, 45, 46}" "(of_char c :: int) \<notin> {47, 45, 46}"
    using rng u by auto
  then show ?thesis by auto
qed

lemma inClass_separator: "inClass True (OneOf ''/-.'') = inClass False (OneOf ''/-.'')"
proof
  fix c
  have "map toUpperChar ''/-.'' = ''/-.''" by code_simp
  then show "inClass True (OneOf ''/-.'') c = inClass False (OneOf ''/-.'') c"
    using toUpperChar_separator[of c] by simp
qed

lemma inClass_Digit: "inClass True Digit = inClass False Digit"
  by (rule ext) simp

lemma flag_Rep:
  "inClass True cls = inClass False cls \<Longrightarrow>
   matchRe True (Rep cls lo hi) = matchRe False (Rep cls lo hi)"
  by (rule ext) simp

lemma flag_Seq:
  "matchRe True a = matchRe False a \<Longrightarrow> matchRe True b = matchRe False b \<Longrightarrow>
   matchRe True (Seq a b) = matchRe False (Seq a b)"
  by (rule ext) simp

lemma flag_Grp:
  "matchRe True a = matchRe False a \<Longrightarrow> matchRe True (Grp k a) = matchRe False (Grp k a)"
  by (rule ext) simp

lemma flag_Nil: "matchRe True (Lit []) = matchRe False (Lit [])"
  by (rule ext) simp

lemma dateToken_flag: "matchRe True dateToken = matchRe False dateToken"
  unfolding dateToken_def seqs_def foldr.simps o_apply id_apply
  by (intro flag_Grp flag_Seq flag_Rep flag_Nil inClass_separator inClass_Digit)

lemma test_labelledDate: "test True labelledDateRe s \<Longrightarrow> test False dateToken s"
proof -
  assume "test True labelledDateRe s"
  then have "test True (Seq dateToken (Lit [])) s"
    unfolding labelledDateRe_def seqs_Cons seqs_def[of "[]"] foldr.simps id_apply
    by (blast dest: test_Seq_snd)
  then have "test True dateToken s" by (rule test_Seq_fst)
  then show ?thesis by (simp add: test_iff dateToken_flag)
qed

lemma matchAll_none: "\<not> test ic r s \<Longrightarrow> matchAll ic r s = []"
  by (simp add: matchAll_def test_def js_match_def)

text \<open>
  Claim C7, as amended. For every text in which none of the patterns of the parser
  matches, \<open>parseQuoteText\<close> returns the empty quote number, no date, the total amount 0
  and no item; the function is total on strings, no step of it throws. The patterns
  are, in any case of the letters: the word Quote or Estimate, then an optional
  \<^verbatim>\<open>#\<close> (or, after Quote, the word Number and an optional colon), then a token of word
  characters that ends in a digit; a date-like token (digits, separator, digits,
  separator, digits); the word Total, or the words Amount Due, then an optional colon and
  an optional dollar sign, then an amount with two decimals; and the dimension pattern.
  The label alone decides nothing: the word Quote without such a token after it, or the
  word Total without an amount, leaves the default.
\<close>

theorem default_safety:
  assumes "\<not> test True quoteHashRe txt" and "\<not> test True quoteNumberRe txt"
    and "\<not> test True estimateRe txt"
    and "\<not> test False dateToken txt"
    and "\<not> test True totalRe txt" and "\<not> test True amountDueRe txt"
    and "\<not> test True dimensionRe txt"
  shows "parseQuoteText eng txt =
           \<lparr>quoteNumber = [], quoteDate = None, totalAmount = Fin 0, items = []\<rparr>"
proof -
  have n: "js_match True quoteHashRe txt = None" "js_match True quoteNumberRe txt = None"
    "js_match True estimateRe txt = None"
    using assms(1,2,3) by (simp_all add: js_match_None)
  have d: "js_match True labelledDateRe txt = None" "js_match False dateToken txt = None"
    using assms(4) by (blast intro: js_match_None dest: test_labelledDate)+
  have t: "js_match True totalRe txt = None" "js_match True grandTotalRe txt = None"
    "js_match True amountDueRe txt = None"
    using assms(5,6) by (blast intro: js_match_None dest: test_grandTotal)+
  have i: "matchAll True dimensionRe txt = []"
    using assms(7) by (rule matchAll_none)
  show ?thesis
    by (simp add: parseQuoteText_def n d t i orElse_def)
qed

lemma labels_without_tokens:
  "\<not> test True quoteHashRe ''Thank you for your quote request. Amount of glass in total: tempered''"
  "\<not> test True quoteNumberRe ''Thank you for your quote request. Amount of glass in total: tempered''"
  "\<not> test True estimateRe ''Thank you for your quote request. Amount of glass in total: tempered''"
  "\<not> test False dateToken ''Thank you for your quote request. Amount of glass in total: tempered''"
  "\<not> test True totalRe ''Thank you for your quote request. Amount of glass in total: tempered''"
  "\<not> test True amountDueRe ''Thank you for your quote request. Amount of glass in total: tempered''"
  "\<not> test True dimensionRe ''Thank you for your quote request. Amount of glass in total: tempered''"
  by code_simp+

theorem default_safety_witness:
  "\<not> test True quoteHashRe ''Thank you for your quote request. Amount of glass in total: tempered''
   \<and> \<not> test True quoteNumberRe ''Thank you for your quote request. Amount of glass in total: tempered''
   \<and> \<not> test True estimateRe ''Thank you for your quote request. Amount of glass in total: tempered''
   \<and> \<not> test False dateToken ''Thank you for your quote request. Amount of glass in total: tempered''
   \<and> \<not> test True totalRe ''Thank you for your quote request. Amount of glass in total: tempered''
   \<and> \<not> test True amountDueRe ''Thank you for your quote request. Amount of glass in total: tempered''
   \<and> \<not> test True dimensionRe ''Thank you for your quote request. Amount of glass in total: tempered''
   \<and> parseQuoteText sampleEngine
         ''Thank you for your quote request. Amount of glass in total: tempered'' =
       \<lparr>quoteNumber = [], quoteDate = None, totalAmount = Fin 0, items = []\<rparr>"
  using default_safety [OF labels_without_tokens, of sampleEngine] labels_without_tokens
  by blast

text \<open>
  The claim as first stated, with the labels the specification names: \<^verbatim>\<open>Quote #\<close>,
  \<^verbatim>\<open>Quote Number:\<close> and \<^verbatim>\<open>Estimate #\<close> for the quote number, \<^verbatim>\<open>Total:\<close>, \<^verbatim>\<open>Grand Total:\<close> and
  \<^verbatim>\<open>Amount Due:\<close> for the total. It fails on a text with the word quote before a number
  and on one with the word Total before an amount: neither has a label, a date-like
  token or a dimension pattern, and the parser returns the quote number 20 for the first
  and the total amount 450 for the second.
\<close>

lemma unlabelled_quote_number:
  "\<not> mentions specQuoteNumberLabels ''We quote 20 weeks lead time''"
  "\<not> test False dateToken ''We quote 20 weeks lead time''"
  "\<not> mentions specTotalLabels ''We quote 20 weeks lead time''"
  "\<not> test True dimensionRe ''We quote 20 weeks lead time''"
  "parseQuoteText sampleEngine ''We quote 20 weeks lead time'' =
     \<lparr>quoteNumber = ''20'', quoteDate = None, totalAmount = Fin 0, items = []\<rparr>"
  by code_simp+

lemma unlabelled_total:
  "\<not> mentions specQuoteNumberLabels ''Total 450.00 due on receipt''"
  "\<not> test False dateToken ''Total 450.00 due on receipt''"
  "\<not> mentions specTotalLabels ''Total 450.00 due on receipt''"
  "\<not> test True dimensionRe ''Total 450.00 due on receipt''"
  "parseQuoteText sampleEngine ''Total 450.00 due on receipt'' =
     \<lparr>quoteNumber = [], quoteDate = None, totalAmount = Fin 450, items = []\<rparr>"
  by code_simp+

theorem default_safety_counterexample:
  "\<not> mentions specQuoteNumberLabels ''We quote 20 weeks lead time''
   \<and> \<not> test False dateToken ''We quote 20 weeks lead time''
   \<and> \<not> mentions specTotalLabels ''We quote 20 weeks lead time''
   \<and> \<not> test True dimensionRe ''We quote 20 weeks lead time''
   \<and> parseQuoteText sampleEngine ''We quote 20 weeks lead time'' =
       \<lparr>quoteNumber = ''20'', quoteDate = None, totalAmount = Fin 0, items = []\<rparr>
   \<and> parseQuoteText sampleEngine ''We quote 20 weeks lead time'' \<noteq>
       \<lparr>quoteNumber = [], quoteDate = None, totalAmount = Fin 0, items = []\<rparr>
   \<and> \<not> mentions specQuoteNumberLabels ''Total 450.00 due on receipt''
   \<and> \<not> test False dateToken ''Total 450.00 due on receipt''
   \<and> \<not> mentions specTotalLabels ''Total 450.00 due on receipt''
   \<and> \<not> test True dimensionRe ''Total 450.00 due on receipt''
   \<and> parseQuoteText sampleEngine ''Total 450.00 due on receipt'' =
       \<lparr>quoteNumber = [], quoteDate = None, totalAmount = Fin 450, items = []\<rparr>
   \<and> parseQuoteText sampleEngine ''Total 450.00 due on receipt'' \<noteq>
       \<lparr>quoteNumber = [], quoteDate = None, totalAmount = Fin 0, items = []\<rparr>"
proof -
  have "parseQuoteText sampleEngine ''We quote 20 weeks lead time'' \<noteq>
       \<lparr>quoteNumber = [], quoteDate = None, totalAmount = Fin 0, items = []\<rparr>"
    unfolding unlabelled_quote_number(5) by simp
  moreover have "parseQuoteText sampleEngine ''Total 450.00 due on receipt'' \<noteq>
       \<lparr>quoteNumber = [], quoteDate = None, totalAmount = Fin 0, items = []\<rparr>"
    unfolding unlabelled_total(5) by simp
  ultimately show ?thesis
    using unlabelled_quote_number unlabelled_total by blast
qed

lemma parseItem_unitPrice:
  "parseItem eng txt m = Some it \<Longrightarrow> unitPrice it = js_div (totalPrice it) (quantity it)"
  by (auto simp: parseItem_def Let_def split: if_splits)

lemma parsed_unitPrice:
  assumes "it \<in> set (items (parseQuoteText eng txt))"
  shows "unitPrice it = js_div (totalPrice it) (quantity it)"
proof -
  from assms obtain m where "parseItem eng txt m = Some it"
    by (auto simp: parseQuoteText_def Let_def List.map_filter_def)
  then show ?thesis by (rule parseItem_unitPrice)
qed

lemma zero_quantity_example:
  "items (parseQuoteText eng ''Sash 36 x 60 qty 0 $450.00'') =
     [\<lparr>widthInches = Fin 36, heightInches = Fin 60, description = ''Sash'',
       quantity = Fin 0, unitPrice = PosInf, totalPrice = Fin 450,
       confidenceScore = toDouble (8 / 10)\<rparr>]"
  "items (parseQuoteText eng ''Sash 36 x 60 quantity 0 $450.00'') =
     [\<lparr>widthInches = Fin 36, heightInches = Fin 60, description = ''Sash'',
       quantity = Fin 0, unitPrice = PosInf, totalPrice = Fin 450,
       confidenceScore = toDouble (8 / 10)\<rparr>]"
  by code_simp+

text \<open>
  Claim C10. The division \<^verbatim>\<open>price / quantity\<close> of the item extraction has no guard: the
  unit price of every item \<open>parseQuoteText\<close> returns is its total price divided by its
  quantity, whatever the quantity; and on a dimension line with the token \<^verbatim>\<open>qty 0\<close> or
  \<^verbatim>\<open>quantity 0\<close> it returns an item whose quantity is 0 and whose unit price is the price
  divided by zero, here \<^verbatim>\<open>Infinity\<close>.
\<close>

theorem unguarded_quantity_division:
  "(\<forall>txt it. it \<in> set (items (parseQuoteText eng txt))
       \<longrightarrow> unitPrice it = js_div (totalPrice it) (quantity it))
   \<and> items (parseQuoteText eng ''Sash 36 x 60 qty 0 $450.00'') =
     [\<lparr>widthInches = Fin 36, heightInches = Fin 60, description = ''Sash'',
       quantity = Fin 0, unitPrice = js_div (Fin 450) (Fin 0), totalPrice = Fin 450,
       confidenceScore = toDouble (8 / 10)\<rparr>]
   \<and> items (parseQuoteText eng ''Sash 36 x 60 quantity 0 $450.00'') =
     [\<lparr>widthInches = Fin 36, heightInches = Fin 60, description = ''Sash'',
       quantity = Fin 0, unitPrice = js_div (Fin 450) (Fin 0), totalPrice = Fin 450,
       confidenceScore = toDouble (8 / 10)\<rparr>]
   \<and> js_div (Fin 450) (Fin 0) = PosInf"
proof -
  have "\<forall>txt it. it \<in> set (items (parseQuoteText eng txt))
       \<longrightarrow> unitPrice it = js_div (totalPrice it) (quantity it)"
    by (auto intro: parsed_unitPrice)
  moreover have "js_div (Fin 450) (Fin 0) = PosInf" by code_simp
  ultimately show ?thesis by (simp add: zero_quantity_example)
qed

theorem unguarded_quantity_division_witness:
  "\<lparr>widthInches = Fin 36, heightInches = Fin 60, description = ''Sash'',
     quantity = Fin 0, unitPrice = PosInf, totalPrice = Fin 450,
     confidenceScore = toDouble (8 / 10)\<rparr>
     \<in> set (items (parseQuoteText sampleEngine ''Sash 36 x 60 qty 0 $450.00''))
   \<and> js_div (Fin 450) (Fin 0) = PosInf"
  using unguarded_quantity_division [of sampleEngine] by simp

section \<open>Generating a comparison: proofs\<close>

lemma createDocumentComparisons_result:
  "createDocumentComparisons s doc = (Inr d, s1) \<Longrightarrow> d = doc"
  by (auto simp: createDocumentComparisons_def split: if_splits)

lemma createDocumentComparisons_unavailable:
  "createDocumentComparisons s doc = (out, s1) \<Longrightarrow> unavailable s1 = unavailable s"
  by (auto simp: createDocumentComparisons_def split: if_splits)

lemma updateDocumentComparisons_result:
  "updateDocumentComparisons s doc = (Inr d, s1) \<Longrightarrow> d = doc"
  by (auto simp: updateDocumentComparisons_def split: if_splits)

text \<open>Once the reads and the first write have succeeded, the outcome is decided by the
  last write alone.\<close>

lemma generateComparison_steps:
  assumes q: "getQuoteDetails s qid = Inr quote"
    and qi: "getQuoteItems s qid = Inr quoteItems"
    and ps: "getProducts svc = Inr products"
    and c: "createDocumentComparisons s
              \<lparr>c_projectId = pid, c_quoteId = qid, c_competitorName = q_competitorName quote,
               totalCompetitorPrice = q_totalAmount quote, totalWarnkePrice = Fin 0,
               savingsAmount = Fin 0, savingsPercentage = Fin 0, status = ''generated'',
               comparisonId = generateId svc\<rparr> = (Inr comparison, s1)"
    and l: "generateComparisonItems svc s1 (generateId svc) quoteItems products
              = (comparisonItems, s2)"
  shows "generateComparison svc s qid pid =
           (case updateDocumentComparisons s2
                   (finalComparison svc qid pid quote comparisonItems) of
              (Inl e, s3) \<Rightarrow> (Inl generationFailed, s3)
            | (Inr updatedComparison, s3) \<Rightarrow>
                (Inr \<lparr>resultComparison = updatedComparison,
                      resultItems = comparisonItems\<rparr>, s3))"
proof -
  from c have ceq: "comparison =
      \<lparr>c_projectId = pid, c_quoteId = qid, c_competitorName = q_competitorName quote,
       totalCompetitorPrice = q_totalAmount quote, totalWarnkePrice = Fin 0,
       savingsAmount = Fin 0, savingsPercentage = Fin 0, status = ''generated'',
       comparisonId = generateId svc\<rparr>"
    by (rule createDocumentComparisons_result)
  have fin: "comparison\<lparr>totalWarnkePrice := sumWarnkePrice comparisonItems,
               savingsAmount := js_sub (q_totalAmount quote) (sumWarnkePrice comparisonItems),
               savingsPercentage :=
                 (if js_gt (q_totalAmount quote) (Fin 0)
                  then js_mul
                         (js_div (js_sub (q_totalAmount quote) (sumWarnkePrice comparisonItems))
                            (q_totalAmount quote))
                         (Fin 100)
                  else Fin 0)\<rparr> = finalComparison svc qid pid quote comparisonItems"
    unfolding ceq finalComparison_def by simp
  have cid: "comparisonId comparison = generateId svc" unfolding ceq by simp
  show ?thesis
    unfolding generateComparison_def q qi ps
    by (simp only: sum.case prod.case Let_def c cid l fin)
qed

lemma generateComparison_Inr:
  assumes "generateComparison svc s qid pid = (Inr r, s')"
  shows "\<exists>quote quoteItems products s1 s2.
           getQuoteDetails s qid = Inr quote \<and> getQuoteItems s qid = Inr quoteItems \<and>
           getProducts svc = Inr products \<and> unavailable s1 = unavailable s \<and>
           generateComparisonItems svc s1 (generateId svc) quoteItems products
             = (resultItems r, s2) \<and>
           resultComparison r = finalComparison svc qid pid quote (resultItems r)"
proof -
  from assms obtain quote quoteItems products where
    q: "getQuoteDetails s qid = Inr quote" and
    qi: "getQuoteItems s qid = Inr quoteItems" and
    ps: "getProducts svc = Inr products"
    by (auto simp: generateComparison_def split: sum.splits)
  let ?data = "\<lparr>c_projectId = pid, c_quoteId = qid, c_competitorName = q_competitorName quote,
               totalCompetitorPrice = q_totalAmount quote, totalWarnkePrice = Fin 0,
               savingsAmount = Fin 0, savingsPercentage = Fin 0, status = ''generated'',
               comparisonId = generateId svc\<rparr>"
  obtain out s1 where c0: "createDocumentComparisons s ?data = (out, s1)"
    by (cases "createDocumentComparisons s ?data")
  from assms q qi ps c0 obtain comparison where out: "out = Inr comparison"
    by (cases out) (auto simp: generateComparison_def Let_def)
  obtain comparisonItems s2 where
    l: "generateComparisonItems svc s1 (generateId svc) quoteItems products = (comparisonItems, s2)"
    by (cases "generateComparisonItems svc s1 (generateId svc) quoteItems products")
  note st = generateComparison_steps[OF q qi ps c0[unfolded out] l]
  obtain out2 s3 where
    u: "updateDocumentComparisons s2 (finalComparison svc qid pid quote comparisonItems) = (out2, s3)"
    by (cases "updateDocumentComparisons s2 (finalComparison svc qid pid quote comparisonItems)")
  from assms st u obtain updated where o2: "out2 = Inr updated"
    and r: "r = \<lparr>resultComparison = updated, resultItems = comparisonItems\<rparr>"
    by (cases out2) auto
  from u o2 have "updated = finalComparison svc qid pid quote comparisonItems"
    by (auto dest: updateDocumentComparisons_result)
  with r l q qi ps createDocumentComparisons_unavailable[OF c0] show ?thesis by auto
qed

subsection \<open>The loop\<close>

lemma processQuoteItem_unavailable:
  "unavailable (snd (processQuoteItem svc s cid products q)) = unavailable s"
  by (simp add: processQuoteItem_def createDocumentComparisonItems_def split: sum.splits)

lemma processQuoteItem_outcome:
  "unavailable s1 = unavailable s \<Longrightarrow>
   fst (processQuoteItem svc s1 cid products q) = fst (processQuoteItem svc s cid products q)"
  by (simp add: processQuoteItem_def createDocumentComparisonItems_def split: sum.splits)

text \<open>The loop returns, in the order of the quote items, what its body creates for each
  of them: the writes of earlier passes do not change what a later pass yields.\<close>

lemma loop_outcomes:
  "unavailable s1 = unavailable s \<Longrightarrow>
   fst (comparisonItemsLoop svc s1 cid products qs acc)
     = acc @ List.map_filter (createdFor svc s cid products) qs \<and>
   unavailable (snd (comparisonItemsLoop svc s1 cid products qs acc)) = unavailable s"
proof (induction qs arbitrary: s1 acc)
  case Nil
  then show ?case by simp
next
  case (Cons q qs)
  obtain out s2 where p: "processQuoteItem svc s1 cid products q = (out, s2)"
    by (cases "processQuoteItem svc s1 cid products q")
  have u: "unavailable s2 = unavailable s"
    using processQuoteItem_unavailable[of svc s1 cid products q] p Cons.prems by simp
  have o: "fst (processQuoteItem svc s cid products q) = out"
    using processQuoteItem_outcome[OF Cons.prems, of svc cid products q] p by simp
  show ?case
  proof (cases out)
    case (Inl e)
    with p o Cons.IH[OF u, of acc] show ?thesis
      by (simp add: createdFor_def)
  next
    case (Inr c)
    with p o Cons.IH[OF u, of "acc @ [c]"] show ?thesis
      by (simp add: createdFor_def)
  qed
qed

lemma buildComparisonItem_source:
  "buildComparisonItem svc cid products q = Inr c \<Longrightarrow> quoteItemId c = itemId q"
  by (auto simp: buildComparisonItem_def split: sum.splits option.splits)

lemma createdFor_source:
  "createdFor svc s cid products q = Some c \<Longrightarrow> quoteItemId c = itemId q"
  by (auto simp: createdFor_def processQuoteItem_def createDocumentComparisonItems_def
      split: sum.splits if_splits dest: buildComparisonItem_source)

lemma map_filter_order:
  "subseq (map quoteItemId (List.map_filter (createdFor svc s cid products) qs)) (map itemId qs)"
proof (induction qs)
  case Nil
  then show ?case by simp
next
  case (Cons q qs)
  then show ?case
    by (cases "createdFor svc s cid products q") (auto dest: createdFor_source)
qed

text \<open>With a store that rejects at most writes of comparison items, the generation
  succeeds and returns what the loop body creates for each item of the quote.\<close>

lemma generateComparison_reliable:
  assumes only_items: "\<forall>op \<in> set (unavailable s). \<exists>ci. op = CreateComparisonItem ci"
    and quote: "find (\<lambda>q. q_quoteId q = qid) (quotesColl s) = Some quote"
    and products: "getProducts svc = Inr products"
  shows "\<exists>r s'. generateComparison svc s qid pid = (Inr r, s')
           \<and> resultItems r =
               List.map_filter (createdFor svc s (generateId svc) products)
                 (filter (\<lambda>i. quoteId i = qid) (quoteItemsColl s))
           \<and> resultComparison r = finalComparison svc qid pid quote (resultItems r)"
proof -
  let ?quoteItems = "filter (\<lambda>i. quoteId i = qid) (quoteItemsColl s)"
  let ?data = "\<lparr>c_projectId = pid, c_quoteId = qid, c_competitorName = q_competitorName quote,
               totalCompetitorPrice = q_totalAmount quote, totalWarnkePrice = Fin 0,
               savingsAmount = Fin 0, savingsPercentage = Fin 0, status = ''generated'',
               comparisonId = generateId svc\<rparr>"
  have av: "GetQuote qid \<notin> set (unavailable s)" "QueryQuoteItems qid \<notin> set (unavailable s)"
    "CreateComparison ?data \<notin> set (unavailable s)"
    "\<And>d. UpdateComparison d \<notin> set (unavailable s)"
    using only_items by auto
  have q: "getQuoteDetails s qid = Inr quote"
    using av quote by (simp add: getQuoteDetails_def getDocumentQuotes_def)
  have qi: "getQuoteItems s qid = Inr ?quoteItems"
    using av by (simp add: getQuoteItems_def queryQuoteItems_def)
  obtain s1 where c: "createDocumentComparisons s ?data = (Inr ?data, s1)"
    and u1: "unavailable s1 = unavailable s"
    using av by (simp add: createDocumentComparisons_def)
  obtain comparisonItems s2 where
    l: "generateComparisonItems svc s1 (generateId svc) ?quoteItems products = (comparisonItems, s2)"
    by (cases "generateComparisonItems svc s1 (generateId svc) ?quoteItems products")
  from loop_outcomes[OF u1, of svc "generateId svc" products ?quoteItems "[]"] l
  have res: "comparisonItems = List.map_filter (createdFor svc s (generateId svc) products) ?quoteItems"
    and u2: "unavailable s2 = unavailable s"
    by (simp_all add: generateComparisonItems_def)
  let ?final = "finalComparison svc qid pid quote comparisonItems"
  obtain s3 where up: "updateDocumentComparisons s2 ?final = (Inr ?final, s3)"
    using av u2 by (simp add: updateDocumentComparisons_def)
  have "generateComparison svc s qid pid =
          (Inr \<lparr>resultComparison = ?final, resultItems = comparisonItems\<rparr>, s3)"
    using generateComparison_steps[OF q qi products c l] up by simp
  with res show ?thesis by simp
qed

subsection \<open>The example run\<close>

lemma sumWarnkePrice_map:
  "sumWarnkePrice comparisonItems = foldl js_add (Fin 0) (map warnkePrice comparisonItems)"
  by (simp add: sumWarnkePrice_def foldl_map)

lemma example_reads:
  "find (\<lambda>q. q_quoteId q = ''Q1'') (quotesColl store1) = Some quote1"
  "getProducts services1 = Inr [product1]"
  "generateId services1 = ''C1''"
  "unavailable store1 = []"
  "getQuoteDetails store1 ''Q1'' = Inr quote1"
  "map itemId (filter (\<lambda>i. quoteId i = ''Q1'') (quoteItemsColl store1)) = [''I1'', ''I2'', ''I3'']"
  by code_simp+

lemma example_created:
  "map quoteItemId
     (List.map_filter (createdFor services1 store1 ''C1'' [product1])
        (filter (\<lambda>i. quoteId i = ''Q1'') (quoteItemsColl store1))) = [''I1'', ''I3'']"
  "map warnkePrice
     (List.map_filter (createdFor services1 store1 ''C1'' [product1])
        (filter (\<lambda>i. quoteId i = ''Q1'') (quoteItemsColl store1))) = [Undefined, Undefined]"
  by code_simp+

lemma example_run:
  "\<exists>r s'. generateComparison services1 store1 ''Q1'' ''P1'' = (Inr r, s')
     \<and> map quoteItemId (resultItems r) = [''I1'', ''I3'']
     \<and> map warnkePrice (resultItems r) = [Undefined, Undefined]"
proof -
  have "\<forall>op \<in> set (unavailable store1). \<exists>ci. op = CreateComparisonItem ci"
    by (simp add: example_reads)
  from generateComparison_reliable[OF this example_reads(1,2), of "''P1''"]
  show ?thesis by (auto simp: example_reads example_created)
qed

text \<open>
  Claim C1. For every comparison \<open>generateComparison\<close> returns: the total competitor
  price is the total amount of the quote it read; the total equivalent price
  (\<^verbatim>\<open>totalWarnkePrice\<close>) is the sum of the equivalent prices of the comparison items it
  returns, which are the items that were created; the savings amount is the first minus
  the second; and the savings percentage is the savings amount divided by the total
  competitor price, times 100, when that price is greater than 0, and 0 otherwise.
\<close>

theorem comparison_totals:
  assumes "generateComparison svc s qid pid = (Inr r, s')"
  shows "\<exists>quote. getQuoteDetails s qid = Inr quote
           \<and> totalCompetitorPrice (resultComparison r) = q_totalAmount quote
           \<and> totalWarnkePrice (resultComparison r) = sumWarnkePrice (resultItems r)
           \<and> savingsAmount (resultComparison r) =
               js_sub (totalCompetitorPrice (resultComparison r))
                 (totalWarnkePrice (resultComparison r))
           \<and> savingsPercentage (resultComparison r) =
               (if js_gt (totalCompetitorPrice (resultComparison r)) (Fin 0)
                then js_mul
                       (js_div (savingsAmount (resultComparison r))
                          (totalCompetitorPrice (resultComparison r)))
                       (Fin 100)
                else Fin 0)"
proof -
  from generateComparison_Inr[OF assms] obtain quote where
    "getQuoteDetails s qid = Inr quote" and
    "resultComparison r = finalComparison svc qid pid quote (resultItems r)"
    by auto
  then show ?thesis by (simp add: finalComparison_def)
qed

theorem comparison_totals_witness:
  "\<exists>r s'. generateComparison services1 store1 ''Q1'' ''P1'' = (Inr r, s')
     \<and> q_totalAmount quote1 = Fin 2000
     \<and> totalCompetitorPrice (resultComparison r) = Fin 2000
     \<and> map warnkePrice (resultItems r) = [Undefined, Undefined]
     \<and> sumWarnkePrice (resultItems r) = NaN
     \<and> totalWarnkePrice (resultComparison r) = NaN
     \<and> savingsAmount (resultComparison r) = js_sub (Fin 2000) NaN
     \<and> savingsAmount (resultComparison r) = NaN
     \<and> js_gt (Fin 2000) (Fin 0)
     \<and> savingsPercentage (resultComparison r) = js_mul (js_div NaN (Fin 2000)) (Fin 100)
     \<and> savingsPercentage (resultComparison r) = NaN"
proof -
  from example_run obtain r s' where
    run: "generateComparison services1 store1 ''Q1'' ''P1'' = (Inr r, s')" and
    prices: "map warnkePrice (resultItems r) = [Undefined, Undefined]"
    by auto
  have amount: "q_totalAmount quote1 = Fin 2000" by (simp add: quote1_def)
  have sum: "sumWarnkePrice (resultItems r) = NaN"
    by (simp add: sumWarnkePrice_map prices)
  have ops: "js_sub (Fin 2000) NaN = NaN" "js_gt (Fin 2000) (Fin 0)"
    "js_mul (js_div NaN (Fin 2000)) (Fin 100) = NaN"
    by (simp_all add: js_sub_def js_mul_def js_div_def)
  from comparison_totals[OF run] have
    t: "totalCompetitorPrice (resultComparison r) = Fin 2000"
       "totalWarnkePrice (resultComparison r) = NaN"
    and rest: "savingsAmount (resultComparison r) =
               js_sub (totalCompetitorPrice (resultComparison r))
                 (totalWarnkePrice (resultComparison r))"
       "savingsPercentage (resultComparison r) =
               (if js_gt (totalCompetitorPrice (resultComparison r)) (Fin 0)
                then js_mul
                       (js_div (savingsAmount (resultComparison r))
                          (totalCompetitorPrice (resultComparison r)))
                       (Fin 100)
                else Fin 0)"
    by (auto simp: example_reads amount sum)
  from rest have "savingsAmount (resultComparison r) = NaN"
    "savingsPercentage (resultComparison r) = NaN"
    by (simp_all add: t ops)
  with run amount prices sum t ops show ?thesis by auto
qed

lemma createdFor_throws:
  assumes "matchProduct svc q products = Inr m" and "calculateWarnkePrice svc q m = Inl e"
  shows "createdFor svc s cid products q = None"
  using assms by (simp add: createdFor_def processQuoteItem_def buildComparisonItem_def)

text \<open>
  Claim C2. An item whose processing throws is skipped, the loop goes on with the next
  item and the comparison does not fail. Whenever the store serves the reads and the two
  writes of the comparison, and the products are read, \<open>generateComparison\<close> returns:
  its items are exactly what the loop body creates, in order, for the items of the quote,
  which is nothing for an item whose price computation throws, and its total equivalent
  price is the sum over these items alone. With three items of which the second has a
  price computation that throws, it returns the two comparison items of the first and
  the third. The price computation is \<open>calculateWarnkePrice\<close>; it throws when there is
  no matched product to read. A pricing call that fails is not such a case: the window
  calculator records the failure in the object it returns and throws nothing.
\<close>

theorem partial_failure:
  assumes "\<forall>op \<in> set (unavailable s). \<exists>ci. op = CreateComparisonItem ci"
    and "find (\<lambda>q. q_quoteId q = qid) (quotesColl s) = Some quote"
    and "getProducts svc = Inr products"
  shows "(\<exists>r s'. generateComparison svc s qid pid = (Inr r, s')
            \<and> resultItems r =
                List.map_filter (createdFor svc s (generateId svc) products)
                  (filter (\<lambda>i. quoteId i = qid) (quoteItemsColl s))
            \<and> totalWarnkePrice (resultComparison r) = sumWarnkePrice (resultItems r))
         \<and> (\<forall>q m e. matchProduct svc q products = Inr m
                     \<and> calculateWarnkePrice svc q m = Inl e
               \<longrightarrow> createdFor svc s (generateId svc) products q = None)"
proof -
  from generateComparison_reliable[OF assms, of pid] obtain r s' where
    "generateComparison svc s qid pid = (Inr r, s')"
    "resultItems r =
               List.map_filter (createdFor svc s (generateId svc) products)
                 (filter (\<lambda>i. quoteId i = qid) (quoteItemsColl s))"
    "resultComparison r = finalComparison svc qid pid quote (resultItems r)"
    by blast
  then have "\<exists>r s'. generateComparison svc s qid pid = (Inr r, s')
            \<and> resultItems r =
                List.map_filter (createdFor svc s (generateId svc) products)
                  (filter (\<lambda>i. quoteId i = qid) (quoteItemsColl s))
            \<and> totalWarnkePrice (resultComparison r) = sumWarnkePrice (resultItems r)"
    by (simp add: finalComparison_def)
  moreover have "\<forall>q m e. matchProduct svc q products = Inr m
                     \<and> calculateWarnkePrice svc q m = Inl e
               \<longrightarrow> createdFor svc s (generateId svc) products q = None"
    by (auto intro: createdFor_throws)
  ultimately show ?thesis by (rule conjI)
qed

lemma example_second_item:
  "matchProduct services1 item2 [product1] = Inr None"
  "calculateWarnkePrice services1 item2 None = Inl TypeError"
  by code_simp+

theorem partial_failure_witness:
  "unavailable store1 = []
   \<and> find (\<lambda>q. q_quoteId q = ''Q1'') (quotesColl store1) = Some quote1
   \<and> getProducts services1 = Inr [product1]
   \<and> map itemId (filter (\<lambda>i. quoteId i = ''Q1'') (quoteItemsColl store1))
       = [''I1'', ''I2'', ''I3'']
   \<and> matchProduct services1 item2 [product1] = Inr None
   \<and> calculateWarnkePrice services1 item2 None = Inl TypeError
   \<and> createdFor services1 store1 ''C1'' [product1] item2 = None
   \<and> (\<exists>r s'. generateComparison services1 store1 ''Q1'' ''P1'' = (Inr r, s')
         \<and> length (resultItems r) = 2
         \<and> map quoteItemId (resultItems r) = [''I1'', ''I3'']
         \<and> map warnkePrice (resultItems r) = [Undefined, Undefined]
         \<and> totalWarnkePrice (resultComparison r)
             = js_add (js_add (Fin 0) Undefined) Undefined)"
proof -
  have "\<forall>op \<in> set (unavailable store1). \<exists>ci. op = CreateComparisonItem ci"
    by (simp add: example_reads)
  note pf = partial_failure[OF this example_reads(1,2), of "''P1''"]
  from pf obtain r s' where
    run: "generateComparison services1 store1 ''Q1'' ''P1'' = (Inr r, s')" and
    its: "resultItems r =
            List.map_filter (createdFor services1 store1 (generateId services1) [product1])
              (filter (\<lambda>i. quoteId i = ''Q1'') (quoteItemsColl store1))" and
    tot: "totalWarnkePrice (resultComparison r) = sumWarnkePrice (resultItems r)"
    by auto
  from pf example_second_item
  have skipped: "createdFor services1 store1 ''C1'' [product1] item2 = None"
    by (simp add: example_reads)
  from its have ids: "map quoteItemId (resultItems r) = [''I1'', ''I3'']"
    and prices: "map warnkePrice (resultItems r) = [Undefined, Undefined]"
    by (simp_all add: example_reads example_created)
  from ids have len: "length (resultItems r) = 2"
    by (metis length_map length_Cons list.size(3) numeral_2_eq_2)
  from tot prices have "totalWarnkePrice (resultComparison r)
             = js_add (js_add (Fin 0) Undefined) Undefined"
    by (simp add: sumWarnkePrice_map)
  with run len ids prices have
    "\<exists>r s'. generateComparison services1 store1 ''Q1'' ''P1'' = (Inr r, s')
         \<and> length (resultItems r) = 2
         \<and> map quoteItemId (resultItems r) = [''I1'', ''I3'']
         \<and> map warnkePrice (resultItems r) = [Undefined, Undefined]
         \<and> totalWarnkePrice (resultComparison r)
             = js_add (js_add (Fin 0) Undefined) Undefined"
    by auto
  with skipped example_second_item example_reads(1,2,4,6) show ?thesis by simp
qed

lemma calculateWarnkePrice_matched:
  "calculateWarnkePrice svc quoteItem (Some p) =
     Inr \<lparr>calc_totalPrice = Undefined, calc_pricePerWindow = Undefined,
          calc_basePrice = Undefined, calc_optionsPrice = Undefined,
          options = optionsOf quoteItem p\<rparr>"
  by (simp add: calculateWarnkePrice_def priceAttempt_def priceProperty_def)

lemma example_pricing_down:
  "quantity item3 = Fin 2"
  "basePrice matched1 = Fin 300"
  "calculatePrice (pricing servicesDown) (measurementsOf item3) (optionsOf item3 matched1) =
     \<lparr>calculating = False, results = None, error = Some ''Pricing service unavailable''\<rparr>"
  "optionsOf item3 matched1 =
     \<lparr>windowType = ''double-hung'', material = ''vinyl'', glassType = ''triple-pane''\<rparr>"
  by code_simp+

lemma example_pricing_invalid:
  "quantity itemNarrow = Fin 2"
  "calculatePrice (pricing services1) (measurementsOf itemNarrow)
     (optionsOf itemNarrow matched1) =
     \<lparr>calculating = False, results = None,
      error = Some ''Invalid measurements. Please check width and height values.''\<rparr>"
  "optionsOf itemNarrow matched1 =
     \<lparr>windowType = ''double-hung'', material = ''vinyl'', glassType = ''double-pane''\<rparr>"
  by code_simp+

text \<open>
  Claim C3. The claim: when the pricing call fails for a quote item with a matched
  product, the price computation falls back on the base price, so that the quantity 2
  and the base price 300 give the total 600, the price per window 300, no surcharge and
  the options double-hung, vinyl, double-pane. The \<^verbatim>\<open>catch\<close> block of
  \<open>calculateWarnkePrice\<close> computes exactly that, but a failing pricing call never
  reaches it: \<open>calculatePrice\<close> catches its own failures and returns its state object,
  from which \<open>calculateWarnkePrice\<close> reads four properties the object does not have.
  For every item and every matched product (with a name, a material type and a
  description that are strings, as the records have them) the result is therefore four
  undefined prices and the options that were sent. So it is for the item of quantity 2 and the product
  of base price 300 when the request to the price sheet is rejected (the options sent
  name triple-pane glass), and for an item of quantity 2 that the calculator refuses as
  too narrow.
\<close>

theorem pricing_failure_not_recovered:
  "calculateWarnkePrice svc quoteItem (Some p) =
     Inr \<lparr>calc_totalPrice = Undefined, calc_pricePerWindow = Undefined,
          calc_basePrice = Undefined, calc_optionsPrice = Undefined,
          options = optionsOf quoteItem p\<rparr>
   \<and> quantity item3 = Fin 2 \<and> basePrice matched1 = Fin 300
   \<and> calculatePrice (pricing servicesDown) (measurementsOf item3) (optionsOf item3 matched1) =
       \<lparr>calculating = False, results = None, error = Some ''Pricing service unavailable''\<rparr>
   \<and> calculateWarnkePrice servicesDown item3 (Some matched1) =
       Inr \<lparr>calc_totalPrice = Undefined, calc_pricePerWindow = Undefined,
            calc_basePrice = Undefined, calc_optionsPrice = Undefined,
            options = \<lparr>windowType = ''double-hung'', material = ''vinyl'',
                       glassType = ''triple-pane''\<rparr>\<rparr>
   \<and> calculateWarnkePrice servicesDown item3 (Some matched1) \<noteq>
       Inr \<lparr>calc_totalPrice = Fin 600, calc_pricePerWindow = Fin 300, calc_basePrice = Fin 300,
            calc_optionsPrice = Fin 0,
            options = \<lparr>windowType = ''double-hung'', material = ''vinyl'',
                       glassType = ''double-pane''\<rparr>\<rparr>
   \<and> quantity itemNarrow = Fin 2
   \<and> calculatePrice (pricing services1) (measurementsOf itemNarrow)
         (optionsOf itemNarrow matched1) =
       \<lparr>calculating = False, results = None,
        error = Some ''Invalid measurements. Please check width and height values.''\<rparr>
   \<and> calculateWarnkePrice services1 itemNarrow (Some matched1) =
       Inr \<lparr>calc_totalPrice = Undefined, calc_pricePerWindow = Undefined,
            calc_basePrice = Undefined, calc_optionsPrice = Undefined,
            options = \<lparr>windowType = ''double-hung'', material = ''vinyl'',
                       glassType = ''double-pane''\<rparr>\<rparr>"
proof (intro conjI)
  show "calculateWarnkePrice svc quoteItem (Some p) =
     Inr \<lparr>calc_totalPrice = Undefined, calc_pricePerWindow = Undefined,
          calc_basePrice = Undefined, calc_optionsPrice = Undefined,
          options = optionsOf quoteItem p\<rparr>"
    by (rule calculateWarnkePrice_matched)
  show "quantity item3 = Fin 2" "basePrice matched1 = Fin 300"
    by (rule example_pricing_down)+
  show "calculatePrice (pricing servicesDown) (measurementsOf item3) (optionsOf item3 matched1) =
       \<lparr>calculating = False, results = None, error = Some ''Pricing service unavailable''\<rparr>"
    by (rule example_pricing_down)
  show "calculateWarnkePrice servicesDown item3 (Some matched1) =
       Inr \<lparr>calc_totalPrice = Undefined, calc_pricePerWindow = Undefined,
            calc_basePrice = Undefined, calc_optionsPrice = Undefined,
            options = \<lparr>windowType = ''double-hung'', material = ''vinyl'',
                       glassType = ''triple-pane''\<rparr>\<rparr>"
    by (simp add: calculateWarnkePrice_matched example_pricing_down(4))
  show "calculateWarnkePrice servicesDown item3 (Some matched1) \<noteq>
       Inr \<lparr>calc_totalPrice = Fin 600, calc_pricePerWindow = Fin 300, calc_basePrice = Fin 300,
            calc_optionsPrice = Fin 0,
            options = \<lparr>windowType = ''double-hung'', material = ''vinyl'',
                       glassType = ''double-pane''\<rparr>\<rparr>"
    by (simp add: calculateWarnkePrice_matched)
  show "quantity itemNarrow = Fin 2"
    by (rule example_pricing_invalid)
  show "calculatePrice (pricing services1) (measurementsOf itemNarrow)
         (optionsOf itemNarrow matched1) =
       \<lparr>calculating = False, results = None,
        error = Some ''Invalid measurements. Please check width and height values.''\<rparr>"
    by (rule example_pricing_invalid)
  show "calculateWarnkePrice services1 itemNarrow (Some matched1) =
       Inr \<lparr>calc_totalPrice = Undefined, calc_pricePerWindow = Undefined,
            calc_basePrice = Undefined, calc_optionsPrice = Undefined,
            options = \<lparr>windowType = ''double-hung'', material = ''vinyl'',
                       glassType = ''double-pane''\<rparr>\<rparr>"
    by (simp add: calculateWarnkePrice_matched example_pricing_invalid(3))
qed

text \<open>
  Claim C8. The comparison items \<open>generateComparison\<close> returns stand in the order of
  the quote items they come from: their quote-item references form a subsequence of the
  identifiers of the quote's items, whichever items failed and were skipped.
\<close>

theorem item_order:
  assumes "generateComparison svc s qid pid = (Inr r, s')"
  shows "subseq (map quoteItemId (resultItems r))
           (map itemId (filter (\<lambda>i. quoteId i = qid) (quoteItemsColl s)))"
proof -
  from generateComparison_Inr[OF assms] obtain quoteItems products s1 s2 where
    qi: "getQuoteItems s qid = Inr quoteItems" and
    u1: "unavailable s1 = unavailable s" and
    l: "generateComparisonItems svc s1 (generateId svc) quoteItems products = (resultItems r, s2)"
    by auto
  from qi have qis: "quoteItems = filter (\<lambda>i. quoteId i = qid) (quoteItemsColl s)"
    by (auto simp: getQuoteItems_def queryQuoteItems_def split: if_splits sum.splits)
  from loop_outcomes[OF u1, of svc "generateId svc" products quoteItems "[]"] l
  have "resultItems r = List.map_filter (createdFor svc s (generateId svc) products) quoteItems"
    by (simp add: generateComparisonItems_def)
  with qis map_filter_order[of svc s "generateId svc" products quoteItems]
  show ?thesis by simp
qed

theorem item_order_witness:
  "\<exists>r s'. generateComparison services1 store1 ''Q1'' ''P1'' = (Inr r, s')
     \<and> map itemId (filter (\<lambda>i. quoteId i = ''Q1'') (quoteItemsColl store1))
         = [''I1'', ''I2'', ''I3'']
     \<and> map quoteItemId (resultItems r) = [''I1'', ''I3'']
     \<and> subseq (map quoteItemId (resultItems r)) [''I1'', ''I2'', ''I3'']"
proof -
  from example_run obtain r s' where
    run: "generateComparison services1 store1 ''Q1'' ''P1'' = (Inr r, s')" and
    ids: "map quoteItemId (resultItems r) = [''I1'', ''I3'']"
    by auto
  from item_order[OF run] have
    "subseq (map quoteItemId (resultItems r)) [''I1'', ''I2'', ''I3'']"
    by (simp only: example_reads(6))
  with run ids example_reads(6) show ?thesis by auto
qed


section \<open>Editing a quote item: proofs\<close>

lemma updateQuoteItem_Inr:
  assumes "updateQuoteItem s iid fv = (Inr r, s')"
  shows "\<exists>item s1. getDocumentQuoteItems s iid = Inr (Some item)
           \<and> r = recalculate fv (setField fv item)
           \<and> updateDocumentQuoteItems s r = (Inr r, s1)
           \<and> s' = updateQuoteTotalAmount s1 (quoteId item)"
proof -
  from assms obtain item where g: "getDocumentQuoteItems s iid = Inr (Some item)"
    by (auto simp: updateQuoteItem_def split: sum.splits option.splits)
  let ?u = "recalculate fv (setField fv item)"
  obtain out s1 where u: "updateDocumentQuoteItems s ?u = (out, s1)"
    by (cases "updateDocumentQuoteItems s ?u")
  from assms g u have "out = Inr r" "s' = updateQuoteTotalAmount s1 (quoteId item)"
    by (cases out; simp add: updateQuoteItem_def Let_def)+
  moreover from u \<open>out = Inr r\<close> have "r = ?u"
    by (auto simp: updateDocumentQuoteItems_def split: if_splits)
  ultimately show ?thesis using g u by auto
qed

lemma recalculate_total:
  "recomputesTotal fv \<Longrightarrow>
   totalPrice (recalculate fv (setField fv item)) =
     js_mul (unitPrice (recalculate fv (setField fv item)))
       (quantity (recalculate fv (setField fv item)))"
  by (cases fv) simp_all

lemma recalculate_keeps:
  "keepsPrices fv \<Longrightarrow>
   totalPrice (recalculate fv (setField fv item)) = totalPrice item \<and>
   unitPrice (recalculate fv (setField fv item)) = unitPrice item \<and>
   quantity (recalculate fv (setField fv item)) = quantity item"
  by (cases fv) simp_all

lemma js_eq_same: "\<not> isNaN a \<Longrightarrow> js_eq a a"
  by (cases a) simp_all

text \<open>With a store that rejects nothing and a quote that exists, the background
  operation leaves the items alone and writes their sum into the quote.\<close>

lemma updateQuoteTotalAmount_total:
  assumes "unavailable s1 = []"
    and "find (\<lambda>q. q_quoteId q = qid) (quotesColl s1) = Some quote"
  shows "quoteItemsColl (updateQuoteTotalAmount s1 qid) = quoteItemsColl s1"
    and "\<exists>q \<in> set (quotesColl (updateQuoteTotalAmount s1 qid)). q_quoteId q = qid"
    and "\<forall>q \<in> set (quotesColl (updateQuoteTotalAmount s1 qid)).
           q_quoteId q = qid \<longrightarrow>
           q_totalAmount q = sumTotalPrice (filter (\<lambda>i. quoteId i = qid) (quoteItemsColl s1))"
proof -
  let ?T = "sumTotalPrice (filter (\<lambda>i. quoteId i = qid) (quoteItemsColl s1))"
  from assms(2) have qq: "q_quoteId quote = qid" "quote \<in> set (quotesColl s1)"
    by (auto simp: find_Some_iff)
  have eq: "updateQuoteTotalAmount s1 qid =
        s1\<lparr>quotesColl := map (\<lambda>d. if q_quoteId d = qid then quote\<lparr>q_totalAmount := ?T\<rparr> else d)
                             (quotesColl s1)\<rparr>"
    using assms qq
    by (simp add: updateQuoteTotalAmount_def getQuoteItems_def queryQuoteItems_def
        getDocumentQuotes_def updateDocumentQuotes_def)
  show "quoteItemsColl (updateQuoteTotalAmount s1 qid) = quoteItemsColl s1"
    unfolding eq by simp
  show "\<exists>q \<in> set (quotesColl (updateQuoteTotalAmount s1 qid)). q_quoteId q = qid"
    unfolding eq using qq by (auto intro!: bexI[of _ "quote\<lparr>q_totalAmount := ?T\<rparr>"] simp: image_iff)
  show "\<forall>q \<in> set (quotesColl (updateQuoteTotalAmount s1 qid)).
           q_quoteId q = qid \<longrightarrow> q_totalAmount q = ?T"
    unfolding eq using qq by auto
qed

text \<open>
  Claim C9, as amended. After a successful \<open>updateQuoteItem\<close>: an edit of the width, the
  height, the quantity or the unit price has set the total price to the product of the
  unit price and the quantity as the engine computes it, so that the two compare equal
  unless the product is \<^verbatim>\<open>NaN\<close>; an edit of the total price has set the unit price to the
  quotient of the new total price by the quantity as the engine computes it, and
  nothing is said of the product then; an edit of any other property has left both
  prices and the quantity as they were; and when the store rejects no operation and the
  quote that the item named before the edit exists, the total amount of that quote is
  now the sum of the total prices of its items, added up in the order of the collection.
\<close>

theorem update_recalculates:
  assumes "updateQuoteItem s iid fv = (Inr r, s')"
  shows "(recomputesTotal fv \<longrightarrow> totalPrice r = js_mul (unitPrice r) (quantity r))
       \<and> (recomputesTotal fv \<and> \<not> isNaN (js_mul (unitPrice r) (quantity r))
             \<longrightarrow> js_eq (totalPrice r) (js_mul (unitPrice r) (quantity r)))
       \<and> (\<forall>v. fv = TotalPrice v \<longrightarrow> totalPrice r = v \<and> unitPrice r = js_div v (quantity r))
       \<and> (\<forall>item. keepsPrices fv \<and> getDocumentQuoteItems s iid = Inr (Some item)
             \<longrightarrow> totalPrice r = totalPrice item \<and> unitPrice r = unitPrice item
                 \<and> quantity r = quantity item)
       \<and> (\<forall>item quote. unavailable s = []
                   \<and> getDocumentQuoteItems s iid = Inr (Some item)
                   \<and> find (\<lambda>q. q_quoteId q = quoteId item) (quotesColl s) = Some quote
             \<longrightarrow> (\<exists>q \<in> set (quotesColl s'). q_quoteId q = quoteId item)
                 \<and> (\<forall>q \<in> set (quotesColl s'). q_quoteId q = quoteId item
                       \<longrightarrow> q_totalAmount q =
                           sumTotalPrice
                             (filter (\<lambda>i. quoteId i = quoteId item) (quoteItemsColl s'))))"
proof -
  from updateQuoteItem_Inr[OF assms] obtain item s1 where
    g: "getDocumentQuoteItems s iid = Inr (Some item)" and
    r: "r = recalculate fv (setField fv item)" and
    u: "updateDocumentQuoteItems s r = (Inr r, s1)" and
    s': "s' = updateQuoteTotalAmount s1 (quoteId item)"
    by blast
  have p1: "recomputesTotal fv \<longrightarrow> totalPrice r = js_mul (unitPrice r) (quantity r)"
    unfolding r by (simp add: recalculate_total)
  have p2: "recomputesTotal fv \<and> \<not> isNaN (js_mul (unitPrice r) (quantity r))
             \<longrightarrow> js_eq (totalPrice r) (js_mul (unitPrice r) (quantity r))"
    using p1 by (auto intro: js_eq_same)
  have p3: "\<forall>v. fv = TotalPrice v \<longrightarrow> totalPrice r = v \<and> unitPrice r = js_div v (quantity r)"
    unfolding r by simp
  have p4: "\<forall>item'. keepsPrices fv \<and> getDocumentQuoteItems s iid = Inr (Some item')
             \<longrightarrow> totalPrice r = totalPrice item' \<and> unitPrice r = unitPrice item'
                 \<and> quantity r = quantity item'"
    unfolding r using g by (auto simp: recalculate_keeps)
  have p5: "\<forall>item' quote. unavailable s = []
                   \<and> getDocumentQuoteItems s iid = Inr (Some item')
                   \<and> find (\<lambda>q. q_quoteId q = quoteId item') (quotesColl s) = Some quote
             \<longrightarrow> (\<exists>q \<in> set (quotesColl s'). q_quoteId q = quoteId item')
                 \<and> (\<forall>q \<in> set (quotesColl s'). q_quoteId q = quoteId item'
                       \<longrightarrow> q_totalAmount q =
                           sumTotalPrice
                             (filter (\<lambda>i. quoteId i = quoteId item') (quoteItemsColl s')))"
  proof (intro allI impI, elim conjE)
    fix item' quote
    assume a: "unavailable s = []"
      and g': "getDocumentQuoteItems s iid = Inr (Some item')"
      and f: "find (\<lambda>q. q_quoteId q = quoteId item') (quotesColl s) = Some quote"
    from g g' have same: "item' = item" by simp
    from u have s1: "unavailable s1 = unavailable s" "quotesColl s1 = quotesColl s"
      by (auto simp: updateDocumentQuoteItems_def split: if_splits)
    have a1: "unavailable s1 = []" using a s1 by simp
    have f1: "find (\<lambda>q. q_quoteId q = quoteId item) (quotesColl s1) = Some quote"
      using f s1 same by simp
    from updateQuoteTotalAmount_total[OF a1 f1] s' same
    show "(\<exists>q \<in> set (quotesColl s'). q_quoteId q = quoteId item')
                 \<and> (\<forall>q \<in> set (quotesColl s'). q_quoteId q = quoteId item'
                       \<longrightarrow> q_totalAmount q =
                           sumTotalPrice
                             (filter (\<lambda>i. quoteId i = quoteId item') (quoteItemsColl s')))"
      by simp
  qed
  from p1 p2 p3 p4 p5 show ?thesis by blast
qed

lemma example_edits:
  "updateQuoteItem store1 ''I1'' (Quantity (Fin 3)) =
     (Inr (item1\<lparr>quantity := Fin 3, totalPrice := Fin 675\<rparr>),
      store1\<lparr>quotesColl := [quote1\<lparr>q_totalAmount := Fin 1725\<rparr>],
             quoteItemsColl := [item1\<lparr>quantity := Fin 3, totalPrice := Fin 675\<rparr>, item2, item3]\<rparr>)"
  "updateQuoteItem store1 ''I1'' (TotalPrice (Fin 500)) =
     (Inr (item1\<lparr>totalPrice := Fin 500, unitPrice := Fin 250\<rparr>),
      store1\<lparr>quotesColl := [quote1\<lparr>q_totalAmount := Fin 1550\<rparr>],
             quoteItemsColl := [item1\<lparr>totalPrice := Fin 500, unitPrice := Fin 250\<rparr>, item2, item3]\<rparr>)"
  "updateQuoteItem store1 ''I1'' (Description ''Low-E Argon, grids'') =
     (Inr (item1\<lparr>description := ''Low-E Argon, grids''\<rparr>),
      store1\<lparr>quotesColl := [quote1\<lparr>q_totalAmount := Fin 1500\<rparr>],
             quoteItemsColl := [item1\<lparr>description := ''Low-E Argon, grids''\<rparr>, item2, item3]\<rparr>)"
  by code_simp+

lemma example_edit_facts:
  "unavailable store1 = []"
  "getDocumentQuoteItems store1 ''I1'' = Inr (Some item1)"
  "find (\<lambda>q. q_quoteId q = quoteId item1) (quotesColl store1) = Some quote1"
  by code_simp+

theorem update_recalculates_witness:
  "unavailable store1 = []
   \<and> getDocumentQuoteItems store1 ''I1'' = Inr (Some item1)
   \<and> find (\<lambda>q. q_quoteId q = quoteId item1) (quotesColl store1) = Some quote1
   \<and> (\<exists>r s'. updateQuoteItem store1 ''I1'' (Quantity (Fin 3)) = (Inr r, s')
       \<and> recomputesTotal (Quantity (Fin 3))
       \<and> quantity r = Fin 3 \<and> unitPrice r = Fin 225 \<and> totalPrice r = Fin 675
       \<and> totalPrice r = js_mul (unitPrice r) (quantity r)
       \<and> \<not> isNaN (js_mul (unitPrice r) (quantity r))
       \<and> js_eq (totalPrice r) (js_mul (unitPrice r) (quantity r))
       \<and> (\<exists>q \<in> set (quotesColl s'). q_quoteId q = quoteId item1)
       \<and> map q_totalAmount (quotesColl s') = [Fin 1725]
       \<and> sumTotalPrice (filter (\<lambda>i. quoteId i = quoteId item1) (quoteItemsColl s'))
           = Fin 1725)
   \<and> (\<exists>r s'. updateQuoteItem store1 ''I1'' (TotalPrice (Fin 500)) = (Inr r, s')
       \<and> quantity r = Fin 2 \<and> totalPrice r = Fin 500
       \<and> unitPrice r = js_div (Fin 500) (quantity r) \<and> unitPrice r = Fin 250)
   \<and> (\<exists>r s'. updateQuoteItem store1 ''I1'' (Description ''Low-E Argon, grids'') = (Inr r, s')
       \<and> keepsPrices (Description ''Low-E Argon, grids'')
       \<and> totalPrice r = totalPrice item1 \<and> unitPrice r = unitPrice item1
       \<and> quantity r = quantity item1)"
proof -
  let ?c1 = "updateQuoteItem store1 ''I1'' (Quantity (Fin 3))"
  let ?r1 = "item1\<lparr>quantity := Fin 3, totalPrice := Fin 675\<rparr>"
  let ?s1 = "store1\<lparr>quotesColl := [quote1\<lparr>q_totalAmount := Fin 1725\<rparr>],
                    quoteItemsColl := [?r1, item2, item3]\<rparr>"
  let ?c2 = "updateQuoteItem store1 ''I1'' (TotalPrice (Fin 500))"
  let ?r2 = "item1\<lparr>totalPrice := Fin 500, unitPrice := Fin 250\<rparr>"
  let ?s2 = "store1\<lparr>quotesColl := [quote1\<lparr>q_totalAmount := Fin 1550\<rparr>],
                    quoteItemsColl := [?r2, item2, item3]\<rparr>"
  let ?c3 = "updateQuoteItem store1 ''I1'' (Description ''Low-E Argon, grids'')"
  let ?r3 = "item1\<lparr>description := ''Low-E Argon, grids''\<rparr>"
  let ?s3 = "store1\<lparr>quotesColl := [quote1\<lparr>q_totalAmount := Fin 1500\<rparr>],
                    quoteItemsColl := [?r3, item2, item3]\<rparr>"
  have rt: "recomputesTotal (Quantity (Fin 3))" by simp
  have kp: "keepsPrices (Description ''Low-E Argon, grids'')" by simp
  have n1: "\<not> isNaN (js_mul (unitPrice ?r1) (quantity ?r1))" by code_simp
  note w1 = update_recalculates[OF example_edits(1)]
  note w2 = update_recalculates[OF example_edits(2)]
  note w3 = update_recalculates[OF example_edits(3)]
  from w1 rt n1 have a:
    "totalPrice ?r1 = js_mul (unitPrice ?r1) (quantity ?r1)"
    "js_eq (totalPrice ?r1) (js_mul (unitPrice ?r1) (quantity ?r1))"
    by blast+
  from w1 example_edit_facts have a':
    "\<exists>q \<in> set (quotesColl ?s1). q_quoteId q = quoteId item1"
    by blast
  from w2 have b: "unitPrice ?r2 = js_div (Fin 500) (quantity ?r2)" by blast
  from w3 kp example_edit_facts(2) have c:
    "totalPrice ?r3 = totalPrice item1" "unitPrice ?r3 = unitPrice item1"
    "quantity ?r3 = quantity item1"
    by blast+
  have f1: "recomputesTotal (Quantity (Fin 3))
       \<and> quantity ?r1 = Fin 3 \<and> unitPrice ?r1 = Fin 225 \<and> totalPrice ?r1 = Fin 675
       \<and> totalPrice ?r1 = js_mul (unitPrice ?r1) (quantity ?r1)
       \<and> \<not> isNaN (js_mul (unitPrice ?r1) (quantity ?r1))
       \<and> js_eq (totalPrice ?r1) (js_mul (unitPrice ?r1) (quantity ?r1))
       \<and> (\<exists>q \<in> set (quotesColl ?s1). q_quoteId q = quoteId item1)
       \<and> map q_totalAmount (quotesColl ?s1) = [Fin 1725]
       \<and> sumTotalPrice (filter (\<lambda>i. quoteId i = quoteId item1) (quoteItemsColl ?s1))
           = Fin 1725"
    by (intro conjI) (rule rt a a' n1 | code_simp)+
  have f2: "quantity ?r2 = Fin 2 \<and> totalPrice ?r2 = Fin 500
       \<and> unitPrice ?r2 = js_div (Fin 500) (quantity ?r2) \<and> unitPrice ?r2 = Fin 250"
    by (intro conjI) (rule b | code_simp)+
  have f3: "keepsPrices (Description ''Low-E Argon, grids'')
       \<and> totalPrice ?r3 = totalPrice item1 \<and> unitPrice ?r3 = unitPrice item1
       \<and> quantity ?r3 = quantity item1"
    by (intro conjI) (rule kp c)+
  have g1: "\<exists>r s'. ?c1 = (Inr r, s')
       \<and> recomputesTotal (Quantity (Fin 3))
       \<and> quantity r = Fin 3 \<and> unitPrice r = Fin 225 \<and> totalPrice r = Fin 675
       \<and> totalPrice r = js_mul (unitPrice r) (quantity r)
       \<and> \<not> isNaN (js_mul (unitPrice r) (quantity r))
       \<and> js_eq (totalPrice r) (js_mul (unitPrice r) (quantity r))
       \<and> (\<exists>q \<in> set (quotesColl s'). q_quoteId q = quoteId item1)
       \<and> map q_totalAmount (quotesColl s') = [Fin 1725]
       \<and> sumTotalPrice (filter (\<lambda>i. quoteId i = quoteId item1) (quoteItemsColl s'))
           = Fin 1725"
    by (rule exI[of _ ?r1], rule exI[of _ ?s1], rule conjI[OF example_edits(1) f1])
  have g2: "\<exists>r s'. ?c2 = (Inr r, s')
       \<and> quantity r = Fin 2 \<and> totalPrice r = Fin 500
       \<and> unitPrice r = js_div (Fin 500) (quantity r) \<and> unitPrice r = Fin 250"
    by (rule exI[of _ ?r2], rule exI[of _ ?s2], rule conjI[OF example_edits(2) f2])
  have g3: "\<exists>r s'. ?c3 = (Inr r, s')
       \<and> keepsPrices (Description ''Low-E Argon, grids'')
       \<and> totalPrice r = totalPrice item1 \<and> unitPrice r = unitPrice item1
       \<and> quantity r = quantity item1"
    by (rule exI[of _ ?r3], rule exI[of _ ?s3], rule conjI[OF example_edits(3) f3])
  from example_edit_facts g1 g2 g3 show ?thesis by (intro conjI)
qed

text \<open>
  The claim as first stated: every successful \<open>updateQuoteItem\<close> leaves the total price
  equal to the unit price times the quantity, and the total amount of the owning quote
  equal to the sum over its items. It fails in five ways, each given by the item and the
  store the call returns. The total price 100.01 on an item of three windows: the
  quotient is rounded, and three times the rounded quotient is the double below 100.01.
  The total price 100 on an item of quantity zero that satisfied the relation: the unit
  price becomes \<^verbatim>\<open>Infinity\<close>, and \<^verbatim>\<open>Infinity * 0\<close> is \<^verbatim>\<open>NaN\<close>. The description of an item that
  did not satisfy the relation: nothing is recomputed. A store that rejects the query
  inside \<^verbatim>\<open>updateQuoteTotalAmount\<close>: the call succeeds, the quote keeps the total amount
  2000 and its items now add up to 1725. And an edit of \<^verbatim>\<open>quoteId\<close>: the item moves to the
  second quote, which keeps the total amount 600 while its items add up to 900.
\<close>

lemma edit_rounding:
  "parseFloat ''100.01'' = Fin (7037578105208177 / 70368744177664)"
  "updateQuoteItem storeTwo ''I5'' (TotalPrice (parseFloat ''100.01'')) =
     (Inr (itemTriple\<lparr>totalPrice := Fin (7037578105208177 / 70368744177664),
                       unitPrice := Fin (4691718736805451 / 140737488355328)\<rparr>),
      storeTwo\<lparr>quotesColl :=
                 [quoteA\<lparr>q_totalAmount := Fin (7037578105208177 / 70368744177664)\<rparr>, quoteB],
               quoteItemsColl :=
                 [itemTriple\<lparr>totalPrice := Fin (7037578105208177 / 70368744177664),
                              unitPrice := Fin (4691718736805451 / 140737488355328)\<rparr>,
                  itemOther]\<rparr>)"
  "quantity itemTriple = Fin 3"
  "js_div (Fin (7037578105208177 / 70368744177664)) (Fin 3)
     = Fin (4691718736805451 / 140737488355328)"
  "js_mul (Fin (4691718736805451 / 140737488355328)) (Fin 3)
     = Fin (439848631575511 / 4398046511104)"
  "\<not> js_eq (Fin (7037578105208177 / 70368744177664))
          (Fin (439848631575511 / 4398046511104))"
  by code_simp+

lemma edit_zero_quantity:
  "js_eq (totalPrice itemZero) (js_mul (unitPrice itemZero) (quantity itemZero))"
  "updateQuoteItem storeZero ''I9'' (TotalPrice (Fin 100)) =
     (Inr (itemZero\<lparr>totalPrice := Fin 100, unitPrice := PosInf\<rparr>),
      storeZero\<lparr>quotesColl := [quote1\<lparr>q_totalAmount := Fin 550\<rparr>],
                quoteItemsColl :=
                  [itemZero\<lparr>totalPrice := Fin 100, unitPrice := PosInf\<rparr>, itemParsedZero]\<rparr>)"
  "quantity itemZero = Fin 0"
  "js_div (Fin 100) (Fin 0) = PosInf"
  "js_mul PosInf (Fin 0) = NaN"
  "\<not> js_eq (Fin 100) NaN"
  by code_simp+

lemma edit_description:
  "updateQuoteItem storeZero ''I8'' (Description ''Sash window'') =
     (Inr (itemParsedZero\<lparr>description := ''Sash window''\<rparr>),
      storeZero\<lparr>quotesColl := [quote1\<lparr>q_totalAmount := Fin 450\<rparr>],
                quoteItemsColl := [itemZero, itemParsedZero\<lparr>description := ''Sash window''\<rparr>]\<rparr>)"
  "totalPrice itemParsedZero = Fin 450"
  "unitPrice itemParsedZero = PosInf"
  "quantity itemParsedZero = Fin 0"
  "\<not> js_eq (Fin 450) NaN"
  by code_simp+

lemma edit_busy:
  "updateQuoteItem storeBusy ''I1'' (Quantity (Fin 3)) =
     (Inr (item1\<lparr>quantity := Fin 3, totalPrice := Fin 675\<rparr>),
      storeBusy\<lparr>quoteItemsColl :=
                  [item1\<lparr>quantity := Fin 3, totalPrice := Fin 675\<rparr>, item2, item3]\<rparr>)"
  "quotesColl storeBusy = [quote1]"
  "q_totalAmount quote1 = Fin 2000"
  "map quoteId [item1, item2, item3] = [''Q1'', ''Q1'', ''Q1'']"
  "sumTotalPrice [item1\<lparr>quantity := Fin 3, totalPrice := Fin 675\<rparr>, item2, item3] = Fin 1725"
  by code_simp+

lemma edit_quoteId:
  "updateQuoteItem storeTwo ''I5'' (QuoteId ''Q2'') =
     (Inr (itemTriple\<lparr>quoteId := ''Q2''\<rparr>),
      storeTwo\<lparr>quotesColl := [quoteA\<lparr>q_totalAmount := Fin 0\<rparr>, quoteB],
               quoteItemsColl := [itemTriple\<lparr>quoteId := ''Q2''\<rparr>, itemOther]\<rparr>)"
  "quoteId itemOther = ''Q2''"
  "q_quoteId quoteB = ''Q2''"
  "q_totalAmount quoteB = Fin 600"
  "sumTotalPrice [itemTriple\<lparr>quoteId := ''Q2''\<rparr>, itemOther] = Fin 900"
  by code_simp+

theorem update_relation_counterexample:
  "updateQuoteItem storeTwo ''I5'' (TotalPrice (parseFloat ''100.01'')) =
     (Inr (itemTriple\<lparr>totalPrice := Fin (7037578105208177 / 70368744177664),
                       unitPrice := Fin (4691718736805451 / 140737488355328)\<rparr>),
      storeTwo\<lparr>quotesColl :=
                 [quoteA\<lparr>q_totalAmount := Fin (7037578105208177 / 70368744177664)\<rparr>, quoteB],
               quoteItemsColl :=
                 [itemTriple\<lparr>totalPrice := Fin (7037578105208177 / 70368744177664),
                              unitPrice := Fin (4691718736805451 / 140737488355328)\<rparr>,
                  itemOther]\<rparr>)
   \<and> parseFloat ''100.01'' = Fin (7037578105208177 / 70368744177664)
   \<and> quantity itemTriple = Fin 3
   \<and> js_div (Fin (7037578105208177 / 70368744177664)) (Fin 3)
       = Fin (4691718736805451 / 140737488355328)
   \<and> js_mul (Fin (4691718736805451 / 140737488355328)) (Fin 3)
       = Fin (439848631575511 / 4398046511104)
   \<and> \<not> js_eq (Fin (7037578105208177 / 70368744177664))
            (Fin (439848631575511 / 4398046511104))
   \<and> js_eq (totalPrice itemZero) (js_mul (unitPrice itemZero) (quantity itemZero))
   \<and> updateQuoteItem storeZero ''I9'' (TotalPrice (Fin 100)) =
       (Inr (itemZero\<lparr>totalPrice := Fin 100, unitPrice := PosInf\<rparr>),
        storeZero\<lparr>quotesColl := [quote1\<lparr>q_totalAmount := Fin 550\<rparr>],
                  quoteItemsColl :=
                    [itemZero\<lparr>totalPrice := Fin 100, unitPrice := PosInf\<rparr>, itemParsedZero]\<rparr>)
   \<and> quantity itemZero = Fin 0
   \<and> js_div (Fin 100) (Fin 0) = PosInf
   \<and> js_mul PosInf (Fin 0) = NaN
   \<and> \<not> js_eq (Fin 100) NaN
   \<and> updateQuoteItem storeZero ''I8'' (Description ''Sash window'') =
       (Inr (itemParsedZero\<lparr>description := ''Sash window''\<rparr>),
        storeZero\<lparr>quotesColl := [quote1\<lparr>q_totalAmount := Fin 450\<rparr>],
                  quoteItemsColl :=
                    [itemZero, itemParsedZero\<lparr>description := ''Sash window''\<rparr>]\<rparr>)
   \<and> totalPrice itemParsedZero = Fin 450
   \<and> unitPrice itemParsedZero = PosInf
   \<and> quantity itemParsedZero = Fin 0
   \<and> \<not> js_eq (Fin 450) NaN
   \<and> updateQuoteItem storeBusy ''I1'' (Quantity (Fin 3)) =
       (Inr (item1\<lparr>quantity := Fin 3, totalPrice := Fin 675\<rparr>),
        storeBusy\<lparr>quoteItemsColl :=
                    [item1\<lparr>quantity := Fin 3, totalPrice := Fin 675\<rparr>, item2, item3]\<rparr>)
   \<and> quotesColl storeBusy = [quote1]
   \<and> q_totalAmount quote1 = Fin 2000
   \<and> map quoteId [item1, item2, item3] = [''Q1'', ''Q1'', ''Q1'']
   \<and> sumTotalPrice [item1\<lparr>quantity := Fin 3, totalPrice := Fin 675\<rparr>, item2, item3]
       = Fin 1725
   \<and> updateQuoteItem storeTwo ''I5'' (QuoteId ''Q2'') =
       (Inr (itemTriple\<lparr>quoteId := ''Q2''\<rparr>),
        storeTwo\<lparr>quotesColl := [quoteA\<lparr>q_totalAmount := Fin 0\<rparr>, quoteB],
                 quoteItemsColl := [itemTriple\<lparr>quoteId := ''Q2''\<rparr>, itemOther]\<rparr>)
   \<and> quoteId itemOther = ''Q2''
   \<and> q_quoteId quoteB = ''Q2''
   \<and> q_totalAmount quoteB = Fin 600
   \<and> sumTotalPrice [itemTriple\<lparr>quoteId := ''Q2''\<rparr>, itemOther] = Fin 900"
  by (intro conjI)
     (rule edit_rounding edit_zero_quantity edit_description edit_busy edit_quoteId)+

end
